theory Spec2Isabelle
  imports Complex_Main
begin

section \<open>JavaScript values and errors\<close>

text \<open>
  The frontend is three browser scripts: the session provider and the administration
  functions (\<^verbatim>\<open>src/frontend/js/auth.js\<close>) and the chat functions
  (\<^verbatim>\<open>src/unnamed/part_001\<close>). They are embedded as functions on an explicit
  page state. Everything the scripts obtain from outside the repository (the identity
  library, \<^verbatim>\<open>fetch\<close>, \<^verbatim>\<open>confirm\<close>, the \<^verbatim>\<open>window\<close> configuration, the
  arithmetic and formatting of JavaScript numbers) is a field of an environment record.

  Strings are byte lists holding the UTF-8 encoding of the JavaScript string; equality and
  concatenation agree with those of JavaScript on well-formed strings. A value obtained
  from \<^verbatim>\<open>response.json()\<close> is a \<open>json\<close>; \<^verbatim>\<open>undefined\<close> is \<open>None\<close> of an option.
  Numbers are kept abstract (type \<open>'n\<close>): the scripts only test, print, scale and format
  them, and these operations belong to the platform.

  An \<^verbatim>\<open>async\<close> function is a function from the state to a result and the new state; the
  result is \<open>Inl\<close> of the thrown value when the promise rejects. Each call runs from its
  first statement to its last: what another listener might do while a call waits on an
  \<^verbatim>\<open>await\<close> is outside the model. Timers are recorded, not run.
\<close>

datatype 'n json =
    JNull
  | JBool bool
  | JNum 'n
  | JStr string
  | JArr "'n json list"
  | JObj "(string \<times> 'n json) list"

text \<open>
  A thrown value. \<open>Error m\<close> is \<^verbatim>\<open>new Error(m)\<close>; \<open>TypeError\<close> and \<open>SyntaxError\<close> are
  raised by the platform (a failed \<^verbatim>\<open>fetch\<close>, a property read on \<^verbatim>\<open>null\<close> or
  \<^verbatim>\<open>undefined\<close>, a body that is not JSON), with the platform's text.
\<close>

datatype js_error = Error string | TypeError string | SyntaxError string

fun error_message :: "js_error \<Rightarrow> string" where
  "error_message (Error m) = m"
| "error_message (TypeError m) = m"
| "error_message (SyntaxError m) = m"

subsection \<open>Fixed texts of the scripts\<close>

definition msg_supabase_not_loaded :: string where
  "msg_supabase_not_loaded = ''Supabase''
    @ [CHR 0xE3, CHR 0x82, CHR 0xAF, CHR 0xE3, CHR 0x83, CHR 0xA9, CHR 0xE3, CHR 0x82,
      CHR 0xA4, CHR 0xE3, CHR 0x82, CHR 0xA2, CHR 0xE3, CHR 0x83, CHR 0xB3, CHR 0xE3, CHR 0x83,
      CHR 0x88, CHR 0xE3, CHR 0x81, CHR 0x8C, CHR 0xE8, CHR 0xAA, CHR 0xAD, CHR 0xE3, CHR 0x81,
      CHR 0xBF, CHR 0xE8, CHR 0xBE, CHR 0xBC, CHR 0xE3, CHR 0x81, CHR 0xBE, CHR 0xE3, CHR 0x82,
      CHR 0x8C, CHR 0xE3, CHR 0x81, CHR 0xA6, CHR 0xE3, CHR 0x81, CHR 0x84, CHR 0xE3, CHR 0x81,
      CHR 0xBE, CHR 0xE3, CHR 0x81, CHR 0x9B, CHR 0xE3, CHR 0x82, CHR 0x93]"

definition msg_get_user_error :: string where
  "msg_get_user_error =
    [CHR 0xE3, CHR 0x83, CHR 0xA6, CHR 0xE3, CHR 0x83, CHR 0xBC, CHR 0xE3, CHR 0x82, CHR 0xB6,
      CHR 0xE3, CHR 0x83, CHR 0xBC, CHR 0xE5, CHR 0x8F, CHR 0x96, CHR 0xE5, CHR 0xBE, CHR 0x97,
      CHR 0xE3, CHR 0x82, CHR 0xA8, CHR 0xE3, CHR 0x83, CHR 0xA9, CHR 0xE3, CHR 0x83, CHR 0xBC]
    @ '':''"

definition msg_no_token :: string where
  "msg_no_token =
    [CHR 0xE8, CHR 0xAA, CHR 0x8D, CHR 0xE8, CHR 0xA8, CHR 0xBC, CHR 0xE3, CHR 0x83, CHR 0x88,
      CHR 0xE3, CHR 0x83, CHR 0xBC, CHR 0xE3, CHR 0x82, CHR 0xAF, CHR 0xE3, CHR 0x83, CHR 0xB3,
      CHR 0xE3, CHR 0x81, CHR 0x8C, CHR 0xE5, CHR 0x8F, CHR 0x96, CHR 0xE5, CHR 0xBE, CHR 0x97,
      CHR 0xE3, CHR 0x81, CHR 0xA7, CHR 0xE3, CHR 0x81, CHR 0x8D, CHR 0xE3, CHR 0x81, CHR 0xBE,
      CHR 0xE3, CHR 0x81, CHR 0x9B, CHR 0xE3, CHR 0x82, CHR 0x93, CHR 0xE3, CHR 0x81, CHR 0xA7,
      CHR 0xE3, CHR 0x81, CHR 0x97, CHR 0xE3, CHR 0x81, CHR 0x9F]"

definition msg_files_failed :: string where
  "msg_files_failed =
    [CHR 0xE3, CHR 0x83, CHR 0x95, CHR 0xE3, CHR 0x82, CHR 0xA1, CHR 0xE3, CHR 0x82, CHR 0xA4,
      CHR 0xE3, CHR 0x83, CHR 0xAB, CHR 0xE4, CHR 0xB8, CHR 0x80, CHR 0xE8, CHR 0xA6, CHR 0xA7,
      CHR 0xE3, CHR 0x81, CHR 0xAE, CHR 0xE5, CHR 0x8F, CHR 0x96, CHR 0xE5, CHR 0xBE, CHR 0x97,
      CHR 0xE3, CHR 0x81, CHR 0xAB, CHR 0xE5, CHR 0xA4, CHR 0xB1, CHR 0xE6, CHR 0x95, CHR 0x97,
      CHR 0xE3, CHR 0x81, CHR 0x97, CHR 0xE3, CHR 0x81, CHR 0xBE, CHR 0xE3, CHR 0x81, CHR 0x97,
      CHR 0xE3, CHR 0x81, CHR 0x9F]"

definition msg_upload_failed :: string where
  "msg_upload_failed =
    [CHR 0xE3, CHR 0x83, CHR 0x95, CHR 0xE3, CHR 0x82, CHR 0xA1, CHR 0xE3, CHR 0x82, CHR 0xA4,
      CHR 0xE3, CHR 0x83, CHR 0xAB, CHR 0xE3, CHR 0x82, CHR 0xA2, CHR 0xE3, CHR 0x83, CHR 0x83,
      CHR 0xE3, CHR 0x83, CHR 0x97, CHR 0xE3, CHR 0x83, CHR 0xAD, CHR 0xE3, CHR 0x83, CHR 0xBC,
      CHR 0xE3, CHR 0x83, CHR 0x89, CHR 0xE3, CHR 0x81, CHR 0xAB, CHR 0xE5, CHR 0xA4, CHR 0xB1,
      CHR 0xE6, CHR 0x95, CHR 0x97, CHR 0xE3, CHR 0x81, CHR 0x97, CHR 0xE3, CHR 0x81, CHR 0xBE,
      CHR 0xE3, CHR 0x81, CHR 0x97, CHR 0xE3, CHR 0x81, CHR 0x9F]"

definition msg_delete_failed :: string where
  "msg_delete_failed =
    [CHR 0xE3, CHR 0x83, CHR 0x95, CHR 0xE3, CHR 0x82, CHR 0xA1, CHR 0xE3, CHR 0x82, CHR 0xA4,
      CHR 0xE3, CHR 0x83, CHR 0xAB, CHR 0xE5, CHR 0x89, CHR 0x8A, CHR 0xE9, CHR 0x99, CHR 0xA4,
      CHR 0xE3, CHR 0x81, CHR 0xAB, CHR 0xE5, CHR 0xA4, CHR 0xB1, CHR 0xE6, CHR 0x95, CHR 0x97,
      CHR 0xE3, CHR 0x81, CHR 0x97, CHR 0xE3, CHR 0x81, CHR 0xBE, CHR 0xE3, CHR 0x81, CHR 0x97,
      CHR 0xE3, CHR 0x81, CHR 0x9F]"

definition msg_send_failed :: string where
  "msg_send_failed =
    [CHR 0xE3, CHR 0x83, CHR 0xA1, CHR 0xE3, CHR 0x83, CHR 0x83, CHR 0xE3, CHR 0x82, CHR 0xBB,
      CHR 0xE3, CHR 0x83, CHR 0xBC, CHR 0xE3, CHR 0x82, CHR 0xB8, CHR 0xE9, CHR 0x80, CHR 0x81,
      CHR 0xE4, CHR 0xBF, CHR 0xA1, CHR 0xE3, CHR 0x81, CHR 0xAB, CHR 0xE5, CHR 0xA4, CHR 0xB1,
      CHR 0xE6, CHR 0x95, CHR 0x97, CHR 0xE3, CHR 0x81, CHR 0x97, CHR 0xE3, CHR 0x81, CHR 0xBE,
      CHR 0xE3, CHR 0x81, CHR 0x97, CHR 0xE3, CHR 0x81, CHR 0x9F]"

definition msg_confirm_delete :: string where
  "msg_confirm_delete =
    [CHR 0xE3, CHR 0x81, CHR 0x93, CHR 0xE3, CHR 0x81, CHR 0xAE, CHR 0xE3, CHR 0x83, CHR 0x95,
      CHR 0xE3, CHR 0x82, CHR 0xA1, CHR 0xE3, CHR 0x82, CHR 0xA4, CHR 0xE3, CHR 0x83, CHR 0xAB,
      CHR 0xE3, CHR 0x82, CHR 0x92, CHR 0xE5, CHR 0x89, CHR 0x8A, CHR 0xE9, CHR 0x99, CHR 0xA4,
      CHR 0xE3, CHR 0x81, CHR 0x97, CHR 0xE3, CHR 0x81, CHR 0xBE, CHR 0xE3, CHR 0x81, CHR 0x99,
      CHR 0xE3, CHR 0x81, CHR 0x8B, CHR 0xEF, CHR 0xBC, CHR 0x9F]"

definition msg_deleted :: string where
  "msg_deleted =
    [CHR 0xE3, CHR 0x83, CHR 0x95, CHR 0xE3, CHR 0x82, CHR 0xA1, CHR 0xE3, CHR 0x82, CHR 0xA4,
      CHR 0xE3, CHR 0x83, CHR 0xAB, CHR 0xE3, CHR 0x82, CHR 0x92, CHR 0xE5, CHR 0x89, CHR 0x8A,
      CHR 0xE9, CHR 0x99, CHR 0xA4, CHR 0xE3, CHR 0x81, CHR 0x97, CHR 0xE3, CHR 0x81, CHR 0xBE,
      CHR 0xE3, CHR 0x81, CHR 0x97, CHR 0xE3, CHR 0x81, CHR 0x9F]"

definition html_no_files :: string where
  "html_no_files = ''<td colspan='' @ [CHR 0x22] @ ''5'' @ [CHR 0x22] @ '' style=''
    @ [CHR 0x22] @ ''text-align: center;'' @ [CHR 0x22] @ ''>''
    @ [CHR 0xE3, CHR 0x83, CHR 0x95, CHR 0xE3, CHR 0x82, CHR 0xA1, CHR 0xE3, CHR 0x82,
      CHR 0xA4, CHR 0xE3, CHR 0x83, CHR 0xAB, CHR 0xE3, CHR 0x81, CHR 0x8C, CHR 0xE3, CHR 0x81,
      CHR 0x82, CHR 0xE3, CHR 0x82, CHR 0x8A, CHR 0xE3, CHR 0x81, CHR 0xBE, CHR 0xE3, CHR 0x81,
      CHR 0x9B, CHR 0xE3, CHR 0x82, CHR 0x93] @ ''</td>''"

definition badge_uploaded :: string where
  "badge_uploaded = ''<span class='' @ [CHR 0x22] @ ''badge badge-uploaded'' @ [CHR 0x22]
    @ ''>''
    @ [CHR 0xE3, CHR 0x82, CHR 0xA2, CHR 0xE3, CHR 0x83, CHR 0x83, CHR 0xE3, CHR 0x83,
      CHR 0x97, CHR 0xE3, CHR 0x83, CHR 0xAD, CHR 0xE3, CHR 0x83, CHR 0xBC, CHR 0xE3, CHR 0x83,
      CHR 0x89, CHR 0xE6, CHR 0xB8, CHR 0x88, CHR 0xE3, CHR 0x81, CHR 0xBF] @ ''</span>''"

definition badge_indexing :: string where
  "badge_indexing = ''<span class='' @ [CHR 0x22] @ ''badge badge-indexing'' @ [CHR 0x22]
    @ ''>''
    @ [CHR 0xE5, CHR 0x87, CHR 0xA6, CHR 0xE7, CHR 0x90, CHR 0x86, CHR 0xE4, CHR 0xB8, CHR 0xAD]
    @ ''</span>''"

definition badge_indexed :: string where
  "badge_indexed = ''<span class='' @ [CHR 0x22] @ ''badge badge-indexed'' @ [CHR 0x22]
    @ ''>'' @ [CHR 0xE5, CHR 0xAE, CHR 0x8C, CHR 0xE4, CHR 0xBA, CHR 0x86] @ ''</span>''"

definition badge_error :: string where
  "badge_error = ''<span class='' @ [CHR 0x22] @ ''badge badge-error'' @ [CHR 0x22] @ ''>''
    @ [CHR 0xE3, CHR 0x82, CHR 0xA8, CHR 0xE3, CHR 0x83, CHR 0xA9, CHR 0xE3, CHR 0x83, CHR 0xBC]
    @ ''</span>''"

definition txt_similarity_open :: string where
  "txt_similarity_open = '' (''
    @ [CHR 0xE9, CHR 0xA1, CHR 0x9E, CHR 0xE4, CHR 0xBC, CHR 0xBC, CHR 0xE5, CHR 0xBA, CHR 0xA6]
    @ '': ''"

definition txt_you :: string where
  "txt_you =
    [CHR 0xE3, CHR 0x81, CHR 0x82, CHR 0xE3, CHR 0x81, CHR 0xAA, CHR 0xE3, CHR 0x81, CHR 0x9F]"

definition txt_assistant :: string where
  "txt_assistant =
    [CHR 0xE3, CHR 0x82, CHR 0xA2, CHR 0xE3, CHR 0x82, CHR 0xB7, CHR 0xE3, CHR 0x82, CHR 0xB9,
      CHR 0xE3, CHR 0x82, CHR 0xBF, CHR 0xE3, CHR 0x83, CHR 0xB3, CHR 0xE3, CHR 0x83, CHR 0x88]"

definition txt_references :: string where
  "txt_references =
    [CHR 0xE5, CHR 0x8F, CHR 0x82, CHR 0xE8, CHR 0x80, CHR 0x83, CHR 0xE8, CHR 0xB3, CHR 0x87,
      CHR 0xE6, CHR 0x96, CHR 0x99]"

definition txt_error :: string where
  "txt_error =
    [CHR 0xE3, CHR 0x82, CHR 0xA8, CHR 0xE3, CHR 0x83, CHR 0xA9, CHR 0xE3, CHR 0x83, CHR 0xBC]"

definition html_sending :: string where
  "html_sending = ''<span class='' @ [CHR 0x22] @ ''loading'' @ [CHR 0x22] @ ''></span> ''
    @ [CHR 0xE9, CHR 0x80, CHR 0x81, CHR 0xE4, CHR 0xBF, CHR 0xA1, CHR 0xE4, CHR 0xB8, CHR 0xAD]
    @ ''...''"

definition txt_send :: string where
  "txt_send = [CHR 0xE9, CHR 0x80, CHR 0x81, CHR 0xE4, CHR 0xBF, CHR 0xA1]"

section \<open>The world outside the scripts\<close>

text \<open>
  The identity library answers \<^verbatim>\<open>auth.getUser()\<close> and \<^verbatim>\<open>auth.getSession()\<close> with an
  object \<^verbatim>\<open>{data, error}\<close>, which the scripts destructure. A reported error is the
  \<open>Some\<close> case of the error field (its text is what \<^verbatim>\<open>console.error\<close> prints). The
  library is not part of the repository: \<^verbatim>\<open>createClient\<close> is taken to return a handle
  and the two queries to resolve with such an object, as the scripts expect of them.
\<close>

record user =
  user_id :: string
  email :: "string option"

record user_response =
  data_user :: "user option"
  user_error :: "string option"

record session =
  access_token :: string

record session_response =
  data_session :: "session option"
  session_error :: "string option"

datatype js_file = File (file_name: string) (file_bytes: string)

datatype body = NoBody | TextBody string | FormData "(string \<times> js_file) list"

record request =
  url :: string
  http_method :: string
  headers :: "(string \<times> string) list"
  body :: body

text \<open>
  A response carries its status and what \<^verbatim>\<open>response.json()\<close> yields: the parsed value,
  or the text of the \<^verbatim>\<open>SyntaxError\<close> when the body is not JSON. \<^verbatim>\<open>response.ok\<close> is true
  exactly for the statuses 200 to 299.
\<close>

record 'n response =
  status :: nat
  json_body :: "string + 'n json"

definition ok :: "'n response \<Rightarrow> bool" where
  "ok r = (200 \<le> status r \<and> status r \<le> 299)"

datatype 'n fetch_outcome = NetworkFailure string | Response "'n response"

text \<open>
  What the page did to the outside, in order. The length of this list is the logical time
  at which the next outside call is answered, so that two calls of the same kind may be
  answered differently.
\<close>

datatype event =
    ConsoleError "string list"
  | CreateClient string string
  | GetUser
  | GetSession
  | Confirm string
  | Fetch request
  | SetTimeout nat

record 'n env =
  supabase_defined :: bool
  window_SUPABASE_URL :: "string option"
  window_SUPABASE_ANON_KEY :: "string option"
  window_ADMIN_EMAILS :: "string option"
  window_API_BASE_URL :: "string option"
  auth_getUser :: "nat \<Rightarrow> user_response"
  auth_getSession :: "nat \<Rightarrow> session_response"
  confirm_reply :: "nat \<Rightarrow> bool"
  fetch_reply :: "nat \<Rightarrow> request \<Rightarrow> 'n fetch_outcome"
  num_truthy :: "'n \<Rightarrow> bool"
  num_to_string :: "'n \<Rightarrow> string"
  to_number :: "'n json option \<Rightarrow> 'n"
  times_100 :: "'n \<Rightarrow> 'n"
  toFixed :: "'n \<Rightarrow> nat \<Rightarrow> string"
  gt_zero :: "'n json option \<Rightarrow> bool"
  null_read_text :: "string \<Rightarrow> string"
  not_a_function_text :: "string \<Rightarrow> string"
  object_prototype_member :: "string \<Rightarrow> string option"
  date_toLocaleString :: "'n json option \<Rightarrow> string"
  escapeHtml :: "string \<Rightarrow> string"

section \<open>The page state\<close>

text \<open>
  The module variable \<^verbatim>\<open>supabaseClient\<close> (\<open>False\<close> is \<^verbatim>\<open>null\<close>), the browser location,
  and the elements the scripts look up by id; an element that the page does not have is
  \<open>None\<close>.
\<close>

record alert_box =
  alert_className :: string
  alert_textContent :: string
  alert_display :: string

datatype file_row =
    EmptyRow string
  | FileRow (cell_name: string) (cell_created: string) (cell_status: string)
            (cell_counts: string) (cell_delete_id: string)

datatype chat_node =
    MessageNode (node_className: string) (node_header: string) (node_content: string)
  | SourcesNode (node_header: string) (node_items: "string list")
  | ErrorNode (node_header: string) (node_content: string)

record button =
  button_disabled :: bool
  button_content :: string

record state =
  supabaseClient :: bool
  trace :: "event list"
  location_href :: string
  alert_message :: "alert_box option"
  files_tbody :: "file_row list option"
  status_filter :: "string option"
  chat_messages :: "chat_node list option"
  message_input_value :: string
  message_input_disabled :: bool
  submit_button :: "button option"

definition emit :: "event \<Rightarrow> state \<Rightarrow> state" where
  "emit e st = st\<lparr>trace := trace st @ [e]\<rparr>"

definition now :: "state \<Rightarrow> nat" where
  "now st = length (trace st)"

fun is_token_query :: "event \<Rightarrow> bool" where
  "is_token_query GetSession = True"
| "is_token_query e = False"


text \<open>\<open>js_or\<close> is \<^verbatim>\<open>x || d\<close> for a string or \<^verbatim>\<open>undefined\<close>: the empty string is falsy.\<close>

definition js_or :: "string option \<Rightarrow> string \<Rightarrow> string" where
  "js_or x d = (case x of None \<Rightarrow> d | Some s \<Rightarrow> if s = [] then d else s)"

section \<open>Session provider (auth.js)\<close>

definition SUPABASE_URL :: "'n env \<Rightarrow> string" where
  "SUPABASE_URL env = js_or (window_SUPABASE_URL env) []"

definition SUPABASE_ANON_KEY :: "'n env \<Rightarrow> string" where
  "SUPABASE_ANON_KEY env = js_or (window_SUPABASE_ANON_KEY env) []"

text \<open>\<^verbatim>\<open>initSupabase\<close>: the result is whether a client handle is returned (not \<^verbatim>\<open>null\<close>).\<close>

definition initSupabase :: "'n env \<Rightarrow> state \<Rightarrow> bool \<times> state" where
  "initSupabase env st =
     (if \<not> supabase_defined env then
        (False, emit (ConsoleError [msg_supabase_not_loaded]) st)
      else if \<not> supabaseClient st then
        (True, (emit (CreateClient (SUPABASE_URL env) (SUPABASE_ANON_KEY env)) st)
                 \<lparr>supabaseClient := True\<rparr>)
      else (True, st))"

definition getCurrentUser :: "'n env \<Rightarrow> state \<Rightarrow> (js_error + user option) \<times> state" where
  "getCurrentUser env st =
     (case initSupabase env st of
        (False, st1) \<Rightarrow> (Inr None, st1)
      | (True, st1) \<Rightarrow>
          (let r = auth_getUser env (now st1); st2 = emit GetUser st1 in
           case user_error r of
             Some e \<Rightarrow> (Inr None, emit (ConsoleError [msg_get_user_error, e]) st2)
           | None \<Rightarrow> (Inr (data_user r), st2)))"

definition getAuthToken :: "'n env \<Rightarrow> state \<Rightarrow> (js_error + string option) \<times> state" where
  "getAuthToken env st =
     (case initSupabase env st of
        (False, st1) \<Rightarrow> (Inr None, st1)
      | (True, st1) \<Rightarrow>
          (let r = auth_getSession env (now st1); st2 = emit GetSession st1 in
           case session_error r of
             Some e \<Rightarrow> (Inr None, st2)
           | None \<Rightarrow>
               (case data_session r of
                  None \<Rightarrow> (Inr None, st2)
                | Some s \<Rightarrow> (Inr (Some (access_token s)), st2))))"

definition checkAuth :: "'n env \<Rightarrow> state \<Rightarrow> (js_error + bool) \<times> state" where
  "checkAuth env st =
     (case getCurrentUser env st of
        (Inl e, st1) \<Rightarrow> (Inl e, st1)
      | (Inr u, st1) \<Rightarrow> (Inr (u \<noteq> None), st1))"

definition requireAuth :: "'n env \<Rightarrow> state \<Rightarrow> (js_error + bool) \<times> state" where
  "requireAuth env st =
     (case checkAuth env st of
        (Inl e, st1) \<Rightarrow> (Inl e, st1)
      | (Inr isAuthenticated, st1) \<Rightarrow>
          (if \<not> isAuthenticated then (Inr False, st1\<lparr>location_href := ''/login.html''\<rparr>)
           else (Inr True, st1)))"


text \<open>\<^verbatim>\<open>Array.prototype.join(',')\<close>, the inverse operation.\<close>

fun join_commas :: "string list \<Rightarrow> string" where
  "join_commas [] = []"
| "join_commas [p] = p"
| "join_commas (p # q # qs) = p @ '','' @ join_commas (q # qs)"






section \<open>Reading JSON values the way the scripts do\<close>

text \<open>
  \<open>truthy\<close> is the test made by \<^verbatim>\<open>if (v)\<close>, \<^verbatim>\<open>!v\<close> and \<^verbatim>\<open>v || d\<close>. Of the numbers only
  zero is falsy here (a parsed body holds no NaN); the platform decides it.
\<close>

definition truthy :: "'n env \<Rightarrow> 'n json option \<Rightarrow> bool" where
  "truthy env v =
     (case v of
        None \<Rightarrow> False
      | Some JNull \<Rightarrow> False
      | Some (JBool b) \<Rightarrow> b
      | Some (JNum n) \<Rightarrow> num_truthy env n
      | Some (JStr s) \<Rightarrow> s \<noteq> []
      | Some (JArr xs) \<Rightarrow> True
      | Some (JObj kvs) \<Rightarrow> True)"

text \<open>
  String conversion, as applied by \<^verbatim>\<open>new Error(v)\<close> and by a template literal. An array
  prints its elements joined by commas, \<^verbatim>\<open>null\<close> elements as nothing; an object prints
  as \<^verbatim>\<open>[object Object]\<close>.
\<close>

fun to_string :: "('n \<Rightarrow> string) \<Rightarrow> 'n json \<Rightarrow> string" where
  "to_string f JNull = ''null''"
| "to_string f (JBool b) = (if b then ''true'' else ''false'')"
| "to_string f (JNum n) = f n"
| "to_string f (JStr s) = s"
| "to_string f (JArr xs) =
     join_commas (map (\<lambda>x. case x of JNull \<Rightarrow> [] | _ \<Rightarrow> to_string f x) xs)"
| "to_string f (JObj kvs) = ''[object Object]''"

definition template_string :: "'n env \<Rightarrow> 'n json option \<Rightarrow> string" where
  "template_string env v =
     (case v of None \<Rightarrow> ''undefined'' | Some x \<Rightarrow> to_string (num_to_string env) x)"

text \<open>Assignment to \<^verbatim>\<open>textContent\<close>: \<^verbatim>\<open>null\<close> and \<^verbatim>\<open>undefined\<close> give the empty text.\<close>

definition text_content :: "'n env \<Rightarrow> 'n json option \<Rightarrow> string" where
  "text_content env v =
     (case v of
        None \<Rightarrow> []
      | Some JNull \<Rightarrow> []
      | Some x \<Rightarrow> to_string (num_to_string env) x)"

text \<open>
  \<^verbatim>\<open>v.k\<close> for the property names the scripts read (\<^verbatim>\<open>detail\<close>, \<^verbatim>\<open>answer\<close>,
  \<^verbatim>\<open>sources\<close>, \<^verbatim>\<open>files\<close>, \<^verbatim>\<open>file_name\<close>, ...; none of them is inherited from a
  prototype): a \<^verbatim>\<open>TypeError\<close> on \<^verbatim>\<open>null\<close> and \<^verbatim>\<open>undefined\<close>, the member of an object,
  \<^verbatim>\<open>undefined\<close> on anything else.
\<close>

definition get_prop :: "'n env \<Rightarrow> 'n json option \<Rightarrow> string \<Rightarrow> js_error + 'n json option" where
  "get_prop env v k =
     (case v of
        None \<Rightarrow> Inl (TypeError (null_read_text env k))
      | Some JNull \<Rightarrow> Inl (TypeError (null_read_text env k))
      | Some (JObj kvs) \<Rightarrow> Inr (map_of kvs k)
      | Some _ \<Rightarrow> Inr None)"

text \<open>\<^verbatim>\<open>v.length > 0\<close> and \<^verbatim>\<open>v.length === 0\<close> for a truthy \<open>v\<close>.\<close>

definition length_positive :: "'n env \<Rightarrow> 'n json \<Rightarrow> bool" where
  "length_positive env v =
     (case v of
        JArr xs \<Rightarrow> xs \<noteq> []
      | JStr s \<Rightarrow> s \<noteq> []
      | JObj kvs \<Rightarrow> gt_zero env (map_of kvs ''length'')
      | _ \<Rightarrow> False)"

definition length_is_zero :: "'n env \<Rightarrow> 'n json \<Rightarrow> bool" where
  "length_is_zero env v =
     (case v of
        JArr xs \<Rightarrow> xs = []
      | JStr s \<Rightarrow> s = []
      | JObj kvs \<Rightarrow>
          (case map_of kvs ''length'' of Some (JNum n) \<Rightarrow> \<not> num_truthy env n | _ \<Rightarrow> False)
      | _ \<Rightarrow> False)"

text \<open>\<^verbatim>\<open>JSON.stringify\<close> of an object whose members are strings.\<close>

definition hex_digit :: "nat \<Rightarrow> char" where
  "hex_digit n = (''0123456789abcdef'') ! (n mod 16)"

definition json_escape_char :: "char \<Rightarrow> string" where
  "json_escape_char c =
     (if c = CHR 0x08 then [CHR 0x5C, CHR ''b'']
      else if c = CHR 0x09 then [CHR 0x5C, CHR ''t'']
      else if c = CHR 0x0A then [CHR 0x5C, CHR ''n'']
      else if c = CHR 0x0C then [CHR 0x5C, CHR ''f'']
      else if c = CHR 0x0D then [CHR 0x5C, CHR ''r'']
      else if c = CHR 0x22 then [CHR 0x5C, CHR 0x22]
      else if c = CHR 0x5C then [CHR 0x5C, CHR 0x5C]
      else if (of_char c :: nat) < 32 then
        [CHR 0x5C, CHR ''u'', CHR ''0'', CHR ''0'',
         hex_digit (of_char c div 16), hex_digit (of_char c)]
      else [c])"

definition json_quote :: "string \<Rightarrow> string" where
  "json_quote s = [CHR 0x22] @ concat (map json_escape_char s) @ [CHR 0x22]"

definition JSON_stringify :: "(string \<times> string) list \<Rightarrow> string" where
  "JSON_stringify members =
     ''{'' @ join_commas (map (\<lambda>(k, v). json_quote k @ '':'' @ json_quote v) members) @ ''}''"


section \<open>Authenticated request gateway\<close>

definition API_BASE_URL :: "'n env \<Rightarrow> string" where
  "API_BASE_URL env = js_or (window_API_BASE_URL env) ''http://localhost:7071/api''"

text \<open>The object literal that \<^verbatim>\<open>getAuthHeaders\<close> returns.\<close>

definition auth_headers :: "string \<Rightarrow> (string \<times> string) list" where
  "auth_headers token =
     [(''Authorization'', ''Bearer '' @ token), (''Content-Type'', ''application/json'')]"

definition getAuthHeaders ::
  "'n env \<Rightarrow> state \<Rightarrow> (js_error + (string \<times> string) list) \<times> state" where
  "getAuthHeaders env st =
     (case getAuthToken env st of
        (Inl e, st1) \<Rightarrow> (Inl e, st1)
      | (Inr None, st1) \<Rightarrow> (Inl (Error msg_no_token), st1)
      | (Inr (Some token), st1) \<Rightarrow>
          (if token = [] then (Inl (Error msg_no_token), st1)
           else (Inr (auth_headers token), st1)))"

text \<open>
  \<^verbatim>\<open>fetch\<close>: the request goes out (it is recorded) and the outside answers with a
  response, or the promise rejects with a \<^verbatim>\<open>TypeError\<close>.
\<close>

definition js_fetch :: "'n env \<Rightarrow> request \<Rightarrow> state \<Rightarrow> (js_error + 'n response) \<times> state" where
  "js_fetch env req st =
     (case fetch_reply env (now st) req of
        NetworkFailure m \<Rightarrow> (Inl (TypeError m), emit (Fetch req) st)
      | Response r \<Rightarrow> (Inr r, emit (Fetch req) st))"

text \<open>
  The last statements of \<^verbatim>\<open>sendMessage\<close>, \<^verbatim>\<open>getFiles\<close>, \<^verbatim>\<open>uploadFile\<close> and
  \<^verbatim>\<open>deleteFile\<close> are the same but for the fallback text:
  \<^verbatim>\<open>if (!response.ok) { const error = await response.json();
       throw new Error(error.detail || fallback); }
  return await response.json();\<close>
  Nothing catches a rejection of \<^verbatim>\<open>response.json()\<close>.
\<close>

definition read_response :: "'n env \<Rightarrow> string \<Rightarrow> 'n response \<Rightarrow> js_error + 'n json" where
  "read_response env fallback r =
     (if \<not> ok r then
        (case json_body r of
           Inl m \<Rightarrow> Inl (SyntaxError m)
         | Inr error \<Rightarrow>
             (case get_prop env (Some error) ''detail'' of
                Inl e \<Rightarrow> Inl e
              | Inr detail \<Rightarrow>
                  Inl (Error (if truthy env detail then template_string env detail
                              else fallback))))
      else (case json_body r of
              Inl m \<Rightarrow> Inl (SyntaxError m)
            | Inr v \<Rightarrow> Inr v))"

text \<open>The second argument of each \<^verbatim>\<open>fetch\<close> call, with the URL.\<close>

definition chat_request :: "'n env \<Rightarrow> (string \<times> string) list \<Rightarrow> string \<Rightarrow> request" where
  "chat_request env hdrs msg =
     \<lparr>url = API_BASE_URL env @ ''/chat'', http_method = ''POST'', headers = hdrs,
      body = TextBody (JSON_stringify [(''message'', msg)])\<rparr>"

definition files_request :: "string \<Rightarrow> (string \<times> string) list \<Rightarrow> request" where
  "files_request u hdrs = \<lparr>url = u, http_method = ''GET'', headers = hdrs, body = NoBody\<rparr>"

text \<open>\<^verbatim>\<open>headers[k]\<close> placed in a header list: a missing member is sent as \<^verbatim>\<open>undefined\<close>.\<close>

definition header_value :: "(string \<times> string) list \<Rightarrow> string \<Rightarrow> string" where
  "header_value hdrs k = (case map_of hdrs k of Some v \<Rightarrow> v | None \<Rightarrow> ''undefined'')"

definition upload_request ::
  "'n env \<Rightarrow> (string \<times> string) list \<Rightarrow> (string \<times> js_file) list \<Rightarrow> request" where
  "upload_request env hdrs formData =
     \<lparr>url = API_BASE_URL env @ ''/admin/upload'', http_method = ''POST'',
      headers = [(''Authorization'', header_value hdrs ''Authorization'')],
      body = FormData formData\<rparr>"

definition delete_request :: "'n env \<Rightarrow> (string \<times> string) list \<Rightarrow> string \<Rightarrow> request" where
  "delete_request env hdrs fileId =
     \<lparr>url = API_BASE_URL env @ ''/admin/delete'', http_method = ''POST'', headers = hdrs,
      body = TextBody (JSON_stringify [(''file_id'', fileId)])\<rparr>"

definition sendMessage :: "'n env \<Rightarrow> string \<Rightarrow> state \<Rightarrow> (js_error + 'n json) \<times> state" where
  "sendMessage env msg st =
     (case getAuthHeaders env st of
        (Inl e, st1) \<Rightarrow> (Inl e, st1)
      | (Inr hdrs, st1) \<Rightarrow>
          (case js_fetch env (chat_request env hdrs msg) st1 of
             (Inl e, st2) \<Rightarrow> (Inl e, st2)
           | (Inr r, st2) \<Rightarrow> (read_response env msg_send_failed r, st2)))"

text \<open>\<^verbatim>\<open>getFiles(status = null)\<close>; the argument is a string or \<^verbatim>\<open>null\<close>.\<close>

definition getFiles ::
  "'n env \<Rightarrow> string option \<Rightarrow> state \<Rightarrow> (js_error + 'n json) \<times> state" where
  "getFiles env status_arg st =
     (case getAuthHeaders env st of
        (Inl e, st1) \<Rightarrow> (Inl e, st1)
      | (Inr hdrs, st1) \<Rightarrow>
          (let url0 = API_BASE_URL env @ ''/admin/files'';
               url1 = (case status_arg of
                         None \<Rightarrow> url0
                       | Some s \<Rightarrow> if s \<noteq> [] then url0 @ ''?status='' @ s else url0)
           in case js_fetch env (files_request url1 hdrs) st1 of
                (Inl e, st2) \<Rightarrow> (Inl e, st2)
              | (Inr r, st2) \<Rightarrow> (read_response env msg_files_failed r, st2)))"

definition uploadFile :: "'n env \<Rightarrow> js_file \<Rightarrow> state \<Rightarrow> (js_error + 'n json) \<times> state" where
  "uploadFile env file st =
     (case getAuthHeaders env st of
        (Inl e, st1) \<Rightarrow> (Inl e, st1)
      | (Inr hdrs0, st1) \<Rightarrow>
          (let hdrs = filter (\<lambda>(k, v). k \<noteq> ''Content-Type'') hdrs0;
               formData = [(''file'', file)]
           in case js_fetch env (upload_request env hdrs formData) st1 of
                (Inl e, st2) \<Rightarrow> (Inl e, st2)
              | (Inr r, st2) \<Rightarrow> (read_response env msg_upload_failed r, st2)))"

text \<open>\<^verbatim>\<open>deleteFile\<close> returns \<^verbatim>\<open>undefined\<close> (\<open>None\<close>) when the confirmation is declined.\<close>

definition deleteFile ::
  "'n env \<Rightarrow> string \<Rightarrow> state \<Rightarrow> (js_error + 'n json option) \<times> state" where
  "deleteFile env fileId st =
     (let confirmed = confirm_reply env (now st);
          st0 = emit (Confirm msg_confirm_delete) st
      in if \<not> confirmed then (Inr None, st0)
         else
           (case getAuthHeaders env st0 of
              (Inl e, st1) \<Rightarrow> (Inl e, st1)
            | (Inr hdrs, st1) \<Rightarrow>
                (case js_fetch env (delete_request env hdrs fileId) st1 of
                   (Inl e, st2) \<Rightarrow> (Inl e, st2)
                 | (Inr r, st2) \<Rightarrow>
                     (case read_response env msg_delete_failed r of
                        Inl e \<Rightarrow> (Inl e, st2)
                      | Inr v \<Rightarrow> (Inr (Some v), st2)))))"


section \<open>File administration (auth.js, second part)\<close>

definition member :: "'n json \<Rightarrow> string \<Rightarrow> 'n json option" where
  "member v k = (case v of JObj kvs \<Rightarrow> map_of kvs k | _ \<Rightarrow> None)"

text \<open>
  \<^verbatim>\<open>badges[status] || status\<close>, as it prints in the row. A status that names a member
  every object inherits (\<^verbatim>\<open>constructor\<close>, ...) finds that member; the platform says
  which names those are and how they print.
\<close>

definition getStatusBadge :: "'n env \<Rightarrow> 'n json option \<Rightarrow> string" where
  "getStatusBadge env status_val =
     (let key = template_string env status_val in
      if key = ''uploaded'' then badge_uploaded
      else if key = ''indexing'' then badge_indexing
      else if key = ''indexed'' then badge_indexed
      else if key = ''error'' then badge_error
      else (case object_prototype_member env key of
              Some inherited \<Rightarrow> inherited
            | None \<Rightarrow> template_string env status_val))"

definition or_zero :: "'n env \<Rightarrow> 'n json option \<Rightarrow> string" where
  "or_zero env v = (if truthy env v then template_string env v else ''0'')"

text \<open>One turn of the \<^verbatim>\<open>forEach\<close> of \<^verbatim>\<open>displayFiles\<close>: the cells of the row it appends.\<close>

definition render_file_row :: "'n env \<Rightarrow> 'n json \<Rightarrow> js_error + file_row" where
  "render_file_row env file =
     (if file = JNull then Inl (TypeError (null_read_text env ''status''))
      else Inr (FileRow
                  (escapeHtml env (text_content env (member file ''file_name'')))
                  (date_toLocaleString env (member file ''created_at''))
                  (getStatusBadge env (member file ''status''))
                  (or_zero env (member file ''chunk_count'') @ '' / ''
                     @ or_zero env (member file ''embedding_count''))
                  (template_string env (member file ''id''))))"

text \<open>Rows are appended one at a time, so those before a failing element stay.\<close>

fun append_rows ::
  "'n env \<Rightarrow> 'n json list \<Rightarrow> file_row list \<Rightarrow> js_error option \<times> file_row list" where
  "append_rows env [] rows = (None, rows)"
| "append_rows env (f # fs) rows =
     (case render_file_row env f of
        Inl e \<Rightarrow> (Some e, rows)
      | Inr r \<Rightarrow> append_rows env fs (rows @ [r]))"

definition displayFiles :: "'n env \<Rightarrow> 'n json option \<Rightarrow> state \<Rightarrow> (js_error + unit) \<times> state" where
  "displayFiles env files st =
     (case files_tbody st of
        None \<Rightarrow> (Inr (), st)
      | Some old \<Rightarrow>
          (let st1 = st\<lparr>files_tbody := Some []\<rparr> in
           case files of
             None \<Rightarrow> (Inl (TypeError (null_read_text env ''length'')), st1)
           | Some JNull \<Rightarrow> (Inl (TypeError (null_read_text env ''length'')), st1)
           | Some v \<Rightarrow>
               if length_is_zero env v then
                 (Inr (), st1\<lparr>files_tbody := Some [EmptyRow html_no_files]\<rparr>)
               else
                 (case v of
                    JArr fs \<Rightarrow>
                      (case append_rows env fs [] of
                         (None, rows) \<Rightarrow> (Inr (), st1\<lparr>files_tbody := Some rows\<rparr>)
                       | (Some e, rows) \<Rightarrow> (Inl e, st1\<lparr>files_tbody := Some rows\<rparr>))
                  | _ \<Rightarrow> (Inl (TypeError (not_a_function_text env ''files.forEach'')), st1))))"

text \<open>
  \<^verbatim>\<open>showAlert(message, type)\<close>. The timer that hides the box five seconds later is
  recorded, not run.
\<close>

definition showAlert :: "string \<Rightarrow> string \<Rightarrow> state \<Rightarrow> state" where
  "showAlert msg type st =
     (case alert_message st of
        None \<Rightarrow> st
      | Some alertDiv \<Rightarrow>
          emit (SetTimeout 5000)
            (st\<lparr>alert_message :=
                  Some \<lparr>alert_className = ''alert alert-'' @ type,
                        alert_textContent = msg,
                        alert_display = ''block''\<rparr>\<rparr>))"

text \<open>\<^verbatim>\<open>error.message || fallback\<close> of the \<^verbatim>\<open>catch\<close> blocks.\<close>

definition message_or :: "js_error \<Rightarrow> string \<Rightarrow> string" where
  "message_or e fallback = js_or (Some (error_message e)) fallback"

definition loadFiles :: "'n env \<Rightarrow> state \<Rightarrow> (js_error + unit) \<times> state" where
  "loadFiles env st =
     (let statusFilter = js_or (status_filter st) [];
          arg = (if statusFilter \<noteq> [] then Some statusFilter else None)
      in case getFiles env arg st of
           (Inl e, st1) \<Rightarrow> (Inr (), showAlert (message_or e msg_files_failed) ''error'' st1)
         | (Inr data, st1) \<Rightarrow>
             (case get_prop env (Some data) ''files'' of
                Inl e \<Rightarrow> (Inr (), showAlert (message_or e msg_files_failed) ''error'' st1)
              | Inr files \<Rightarrow>
                  (case displayFiles env files st1 of
                     (Inl e, st2) \<Rightarrow>
                       (Inr (), showAlert (message_or e msg_files_failed) ''error'' st2)
                   | (Inr u, st2) \<Rightarrow> (Inr (), st2))))"

definition handleDeleteFile :: "'n env \<Rightarrow> string \<Rightarrow> state \<Rightarrow> (js_error + unit) \<times> state" where
  "handleDeleteFile env fileId st =
     (case deleteFile env fileId st of
        (Inl e, st1) \<Rightarrow> (Inr (), showAlert (message_or e msg_delete_failed) ''error'' st1)
      | (Inr r, st1) \<Rightarrow>
          (case loadFiles env st1 of
             (Inl e, st2) \<Rightarrow> (Inr (), showAlert (message_or e msg_delete_failed) ''error'' st2)
           | (Inr u, st2) \<Rightarrow> (Inr (), showAlert msg_deleted ''success'' st2)))"

section \<open>Chat (part_001)\<close>

definition displayMessage :: "'n env \<Rightarrow> 'n json option \<Rightarrow> bool \<Rightarrow> state \<Rightarrow> state" where
  "displayMessage env msg isUser st =
     (case chat_messages st of
        None \<Rightarrow> st
      | Some nodes \<Rightarrow>
          st\<lparr>chat_messages :=
               Some (nodes @ [MessageNode
                                (''message '' @ (if isUser then ''user'' else ''assistant''))
                                (if isUser then txt_you else txt_assistant)
                                (text_content env msg)])\<rparr>)"

text \<open>\<^verbatim>\<open>x * 100\<close>: a number is scaled as it is, anything else is converted first.\<close>

definition number_of :: "'n env \<Rightarrow> 'n json option \<Rightarrow> 'n" where
  "number_of env v = (case v of Some (JNum n) \<Rightarrow> n | _ \<Rightarrow> to_number env v)"

definition source_text :: "'n env \<Rightarrow> 'n json \<Rightarrow> js_error + string" where
  "source_text env source =
     (if source = JNull then Inl (TypeError (null_read_text env ''file_name''))
      else Inr (template_string env (member source ''file_name'')
                @ txt_similarity_open
                @ toFixed env (times_100 env (number_of env (member source ''similarity''))) 1
                @ ''%)''))"

fun source_items :: "'n env \<Rightarrow> 'n json list \<Rightarrow> js_error + string list" where
  "source_items env [] = Inr []"
| "source_items env (x # xs) =
     (case source_text env x of
        Inl e \<Rightarrow> Inl e
      | Inr t \<Rightarrow> (case source_items env xs of Inl e \<Rightarrow> Inl e | Inr ts \<Rightarrow> Inr (t # ts)))"

text \<open>
  \<^verbatim>\<open>displaySources\<close> attaches its list to the page after the loop, so a failing element
  leaves the page as it was.
\<close>

definition displaySources ::
  "'n env \<Rightarrow> 'n json option \<Rightarrow> state \<Rightarrow> (js_error + unit) \<times> state" where
  "displaySources env sources st =
     (case sources of
        None \<Rightarrow> (Inr (), st)
      | Some v \<Rightarrow>
          if \<not> truthy env sources \<or> length_is_zero env v then (Inr (), st)
          else
            (case chat_messages st of
               None \<Rightarrow> (Inr (), st)
             | Some nodes \<Rightarrow>
                 (case v of
                    JArr xs \<Rightarrow>
                      (case source_items env xs of
                         Inl e \<Rightarrow> (Inl e, st)
                       | Inr items \<Rightarrow>
                           (Inr (), st\<lparr>chat_messages :=
                                         Some (nodes @ [SourcesNode txt_references items])\<rparr>))
                  | _ \<Rightarrow> (Inl (TypeError (not_a_function_text env ''sources.forEach'')), st))))"

definition displayError :: "string \<Rightarrow> state \<Rightarrow> state" where
  "displayError msg st =
     (case chat_messages st of
        None \<Rightarrow> st
      | Some nodes \<Rightarrow> st\<lparr>chat_messages := Some (nodes @ [ErrorNode txt_error msg])\<rparr>)"


text \<open>
  \<^verbatim>\<open>String.prototype.trim\<close>. The white space and line terminators of JavaScript, each in
  its UTF-8 encoding: the ASCII ones, U+00A0, U+1680, U+2000 to U+200A, U+2028, U+2029,
  U+202F, U+205F, U+3000 and U+FEFF.
\<close>

definition js_whitespace :: "string list" where
  "js_whitespace =
     [[CHR 0x09], [CHR 0x0A], [CHR 0x0B], [CHR 0x0C], [CHR 0x0D], [CHR 0x20],
      [CHR 0xC2, CHR 0xA0], [CHR 0xE1, CHR 0x9A, CHR 0x80],
      [CHR 0xE2, CHR 0x80, CHR 0x80], [CHR 0xE2, CHR 0x80, CHR 0x81],
      [CHR 0xE2, CHR 0x80, CHR 0x82], [CHR 0xE2, CHR 0x80, CHR 0x83],
      [CHR 0xE2, CHR 0x80, CHR 0x84], [CHR 0xE2, CHR 0x80, CHR 0x85],
      [CHR 0xE2, CHR 0x80, CHR 0x86], [CHR 0xE2, CHR 0x80, CHR 0x87],
      [CHR 0xE2, CHR 0x80, CHR 0x88], [CHR 0xE2, CHR 0x80, CHR 0x89],
      [CHR 0xE2, CHR 0x80, CHR 0x8A], [CHR 0xE2, CHR 0x80, CHR 0xA8],
      [CHR 0xE2, CHR 0x80, CHR 0xA9], [CHR 0xE2, CHR 0x80, CHR 0xAF],
      [CHR 0xE2, CHR 0x81, CHR 0x9F], [CHR 0xE3, CHR 0x80, CHR 0x80],
      [CHR 0xEF, CHR 0xBB, CHR 0xBF]]"

text \<open>The number of leading bytes of \<open>s\<close> that form one white-space character, or 0.\<close>

definition leading_space :: "string list \<Rightarrow> string \<Rightarrow> nat" where
  "leading_space ws s =
     (case List.find (\<lambda>w. take (length w) s = w) ws of None \<Rightarrow> 0 | Some w \<Rightarrow> length w)"

function strip_start :: "string list \<Rightarrow> string \<Rightarrow> string" where
  "strip_start ws s =
     (if s \<noteq> [] \<and> 0 < leading_space ws s then strip_start ws (drop (leading_space ws s) s)
      else s)"
  by pat_completeness auto
termination
  by (relation "measure (\<lambda>(ws, s). length s)") auto

definition trim :: "string \<Rightarrow> string" where
  "trim s = rev (strip_start (map rev js_whitespace) (rev (strip_start js_whitespace s)))"

text \<open>
  The \<^verbatim>\<open>try\<close> and \<^verbatim>\<open>catch\<close> blocks of the submit listener that \<^verbatim>\<open>initChat\<close> installs.
\<close>

definition submit_try :: "'n env \<Rightarrow> string \<Rightarrow> state \<Rightarrow> state" where
  "submit_try env msg st =
     (case sendMessage env msg st of
        (Inl e, st1) \<Rightarrow> displayError (message_or e msg_send_failed) st1
      | (Inr response, st1) \<Rightarrow>
          (case get_prop env (Some response) ''answer'' of
             Inl e \<Rightarrow> displayError (message_or e msg_send_failed) st1
           | Inr answer \<Rightarrow>
               (let st2 = displayMessage env answer False st1;
                    sources = member response ''sources''
                in if truthy env sources
                      \<and> (case sources of None \<Rightarrow> False | Some v \<Rightarrow> length_positive env v)
                   then
                     (case displaySources env sources st2 of
                        (Inl e, st3) \<Rightarrow> displayError (message_or e msg_send_failed) st3
                      | (Inr u, st3) \<Rightarrow> st3)
                   else st2)))"

text \<open>
  The submit listener itself, on a page that has the form and the input (otherwise
  \<^verbatim>\<open>initChat\<close> installs nothing). The \<^verbatim>\<open>finally\<close> block runs on every path.
\<close>

definition submit_listener :: "'n env \<Rightarrow> state \<Rightarrow> state" where
  "submit_listener env st =
     (let msg = trim (message_input_value st) in
      if msg = [] then st
      else
        (let st1 = displayMessage env (Some (JStr msg)) True st;
             st2 = st1\<lparr>message_input_value := [], message_input_disabled := True\<rparr>;
             st3 = st2\<lparr>submit_button :=
                         map_option (\<lambda>b. \<lparr>button_disabled = True, button_content = html_sending\<rparr>)
                           (submit_button st2)\<rparr>;
             st4 = submit_try env msg st3
         in st4\<lparr>message_input_disabled := False,
                submit_button :=
                  map_option (\<lambda>b. \<lparr>button_disabled = False, button_content = txt_send\<rparr>)
                    (submit_button st4)\<rparr>))"


section \<open>Observations on a run\<close>

text \<open>The requests that went out, in order, and the number of token queries.\<close>

fun requests :: "event list \<Rightarrow> request list" where
  "requests [] = []"
| "requests (Fetch r # es) = r # requests es"
| "requests (e # es) = requests es"

definition token_queries :: "event list \<Rightarrow> nat" where
  "token_queries es = length (filter is_token_query es)"


text \<open>What a gateway call makes of the outcome of its \<^verbatim>\<open>fetch\<close>.\<close>

definition reply_result :: "'n env \<Rightarrow> string \<Rightarrow> 'n fetch_outcome \<Rightarrow> js_error + 'n json" where
  "reply_result env fallback out =
     (case out of
        NetworkFailure m \<Rightarrow> Inl (TypeError m)
      | Response r \<Rightarrow> read_response env fallback r)"

text \<open>A source as the backend lists it: an object with a file name and a similarity.\<close>

definition source_object :: "string \<Rightarrow> 'n \<Rightarrow> 'n json" where
  "source_object name sim = JObj [(''file_name'', JStr name), (''similarity'', JNum sim)]"

section \<open>A concrete page and platform\<close>

text \<open>
  An instance used to run the model: numbers are rationals, scaled exactly and printed by
  decimal rounding to the requested number of places (ties away from zero); the identity
  library knows one signed-in administrator; the backend answers the chat request with an
  answer and one source, and anything else with an empty file list.
\<close>

fun decimal :: "nat \<Rightarrow> string" where
  "decimal n = (if n < 10 then [hex_digit n] else decimal (n div 10) @ [hex_digit (n mod 10)])"

definition example_toFixed :: "rat \<Rightarrow> nat \<Rightarrow> string" where
  "example_toFixed x d =
     (let n = nat \<lfloor>\<bar>x\<bar> * 10 ^ d + 1 / 2\<rfloor>;
          whole = decimal (n div 10 ^ d);
          frac = decimal (n mod 10 ^ d)
      in (if x < 0 then ''-'' else []) @ whole
         @ (if d = 0 then [] else ''.'' @ replicate (d - length frac) (CHR ''0'') @ frac))"

definition example_user :: user where
  "example_user = \<lparr>user_id = ''u1'', email = Some ''admin@example.com''\<rparr>"

definition example_chat_reply :: "rat response" where
  "example_chat_reply =
     \<lparr>status = 200,
      json_body = Inr (JObj [(''answer'', JStr ''It is in the manual.''),
                             (''sources'', JArr [JObj [(''file_name'', JStr ''manual.pdf''),
                                                       (''similarity'', JNum (823 / 1000))]])])\<rparr>"

definition example_files_reply :: "rat response" where
  "example_files_reply = \<lparr>status = 200, json_body = Inr (JObj [(''files'', JArr [])])\<rparr>"

definition example_env :: "rat env" where
  "example_env =
     \<lparr>supabase_defined = True,
      window_SUPABASE_URL = Some ''https://project.supabase.co'',
      window_SUPABASE_ANON_KEY = Some ''anon'',
      window_ADMIN_EMAILS = Some ''root@example.com,admin@example.com'',
      window_API_BASE_URL = None,
      auth_getUser = (\<lambda>t. \<lparr>data_user = Some example_user, user_error = None\<rparr>),
      auth_getSession =
        (\<lambda>t. \<lparr>data_session = Some \<lparr>access_token = ''tok''\<rparr>, session_error = None\<rparr>),
      confirm_reply = (\<lambda>t. True),
      fetch_reply =
        (\<lambda>t r. Response (if url r = ''http://localhost:7071/api/chat''
                           then example_chat_reply else example_files_reply)),
      num_truthy = (\<lambda>n. n \<noteq> 0),
      num_to_string = (\<lambda>n. example_toFixed n 3),
      to_number = (\<lambda>v. 0),
      times_100 = (\<lambda>n. n * 100),
      toFixed = example_toFixed,
      gt_zero = (\<lambda>v. case v of Some (JNum n) \<Rightarrow> 0 < n | _ \<Rightarrow> False),
      null_read_text = (\<lambda>k. ''Cannot read properties of null (reading '' @ k @ '')''),
      not_a_function_text = (\<lambda>f. f @ '' is not a function''),
      object_prototype_member = (\<lambda>k. None),
      date_toLocaleString = (\<lambda>v. ''Invalid Date''),
      escapeHtml = (\<lambda>s. s)\<rparr>"

text \<open>The same platform with the identity library missing from the page.\<close>

definition unloaded_env :: "rat env" where
  "unloaded_env = example_env\<lparr>supabase_defined := False\<rparr>"

text \<open>... with a user who answers no to every confirmation.\<close>

definition declining_env :: "rat env" where
  "declining_env = example_env\<lparr>confirm_reply := (\<lambda>t. False)\<rparr>"

text \<open>... with no signed-in user, and a user who declines.\<close>

definition signed_out_env :: "rat env" where
  "signed_out_env =
     example_env
       \<lparr>auth_getUser := (\<lambda>t. \<lparr>data_user = None, user_error = Some ''Auth session missing!''\<rparr>),
        auth_getSession := (\<lambda>t. \<lparr>data_session = None, session_error = None\<rparr>),
        confirm_reply := (\<lambda>t. False)\<rparr>"

text \<open>... with a backend that answers 500, with a detail, without one, and not in JSON.\<close>

definition failing_env :: "string + rat json \<Rightarrow> rat env" where
  "failing_env b = example_env\<lparr>fetch_reply := (\<lambda>t r. Response \<lparr>status = 500, json_body = b\<rparr>)\<rparr>"

text \<open>... with a backend whose chat answer lists no sources.\<close>

definition answer_only_env :: "rat env" where
  "answer_only_env =
     example_env\<lparr>fetch_reply :=
       (\<lambda>t r. Response \<lparr>status = 200, json_body = Inr (JObj [(''answer'', JStr ''Yes.'')])\<rparr>)\<rparr>"

definition example_state :: state where
  "example_state =
     \<lparr>supabaseClient = False, trace = [], location_href = ''/index.html'',
      alert_message = Some \<lparr>alert_className = [], alert_textContent = [],
                            alert_display = ''none''\<rparr>,
      files_tbody = Some [], status_filter = Some [],
      chat_messages = Some [], message_input_value = ''test question'',
      message_input_disabled = False,
      submit_button = Some \<lparr>button_disabled = False, button_content = txt_send\<rparr>\<rparr>"



section \<open>Properties\<close>

subsection \<open>Traces and the token\<close>

lemma requests_append: "requests (a @ b) = requests a @ requests b"
  by (induction a rule: requests.induct) auto

lemma requests_emit:
  "requests (trace (emit e st)) = requests (trace st) @ (case e of Fetch r \<Rightarrow> [r] | _ \<Rightarrow> [])"
  by (cases e) (auto simp: emit_def requests_append)

lemma token_queries_emit:
  "token_queries (trace (emit e st)) = token_queries (trace st) + (if is_token_query e then 1 else 0)"
  by (simp add: emit_def token_queries_def)

lemma getAuthToken_never_throws: "\<exists>t. fst (getAuthToken env st) = Inr t"
  by (auto simp: getAuthToken_def initSupabase_def Let_def split: option.splits)

lemma getAuthToken_requests: "requests (trace (snd (getAuthToken env st))) = requests (trace st)"
  by (auto simp: getAuthToken_def initSupabase_def Let_def emit_def requests_append
           split: option.splits)

lemma getAuthHeaders_none:
  "fst (getAuthToken env st) = Inr None \<Longrightarrow>
   getAuthHeaders env st = (Inl (Error msg_no_token), snd (getAuthToken env st))"
  by (cases "getAuthToken env st") (simp add: getAuthHeaders_def)

lemma getAuthHeaders_token:
  "fst (getAuthToken env st) = Inr (Some t) \<Longrightarrow> t \<noteq> [] \<Longrightarrow>
   getAuthHeaders env st =
     (Inr (auth_headers t), snd (getAuthToken env st))"
  by (cases "getAuthToken env st") (simp add: getAuthHeaders_def)

lemma sendMessage_none:
  "fst (getAuthToken env st) = Inr None \<Longrightarrow>
   sendMessage env msg st = (Inl (Error msg_no_token), snd (getAuthToken env st))"
  by (simp add: sendMessage_def getAuthHeaders_none)

lemma getFiles_none:
  "fst (getAuthToken env st) = Inr None \<Longrightarrow>
   getFiles env a st = (Inl (Error msg_no_token), snd (getAuthToken env st))"
  by (simp add: getFiles_def getAuthHeaders_none)

lemma uploadFile_none:
  "fst (getAuthToken env st) = Inr None \<Longrightarrow>
   uploadFile env f st = (Inl (Error msg_no_token), snd (getAuthToken env st))"
  by (simp add: uploadFile_def getAuthHeaders_none)

lemma deleteFile_declined:
  "\<not> confirm_reply env (now st) \<Longrightarrow>
   deleteFile env fid st = (Inr None, emit (Confirm msg_confirm_delete) st)"
  by (simp add: deleteFile_def)

lemma deleteFile_none:
  "confirm_reply env (now st) \<Longrightarrow>
   fst (getAuthToken env (emit (Confirm msg_confirm_delete) st)) = Inr None \<Longrightarrow>
   deleteFile env fid st =
     (Inl (Error msg_no_token), snd (getAuthToken env (emit (Confirm msg_confirm_delete) st)))"
  by (simp add: deleteFile_def getAuthHeaders_none)

text \<open>
  Claim C1. When \<^verbatim>\<open>getAuthToken\<close> returns \<^verbatim>\<open>null\<close>, \<^verbatim>\<open>sendMessage\<close>, \<^verbatim>\<open>getFiles\<close> and
  \<^verbatim>\<open>uploadFile\<close> throw the error "no token" and send no request. \<^verbatim>\<open>deleteFile\<close> sends
  no request either; it throws that error when the confirmation was accepted, and returns
  \<^verbatim>\<open>undefined\<close> without throwing when it was declined (the token is then never asked for).
\<close>

theorem no_token_no_request:
  "(fst (getAuthToken env st) = Inr None \<longrightarrow>
      fst (sendMessage env msg st) = Inl (Error msg_no_token) \<and>
      requests (trace (snd (sendMessage env msg st))) = requests (trace st) \<and>
      fst (getFiles env a st) = Inl (Error msg_no_token) \<and>
      requests (trace (snd (getFiles env a st))) = requests (trace st) \<and>
      fst (uploadFile env f st) = Inl (Error msg_no_token) \<and>
      requests (trace (snd (uploadFile env f st))) = requests (trace st)) \<and>
   (fst (getAuthToken env (emit (Confirm msg_confirm_delete) st)) = Inr None \<longrightarrow>
      requests (trace (snd (deleteFile env fid st))) = requests (trace st) \<and>
      (confirm_reply env (now st) \<longrightarrow>
         fst (deleteFile env fid st) = Inl (Error msg_no_token)) \<and>
      (\<not> confirm_reply env (now st) \<longrightarrow>
         deleteFile env fid st = (Inr None, emit (Confirm msg_confirm_delete) st)))"
proof (intro conjI impI)
  assume n: "fst (getAuthToken env st) = Inr None"
  show "fst (sendMessage env msg st) = Inl (Error msg_no_token)"
    by (simp add: sendMessage_none [OF n])
  show "requests (trace (snd (sendMessage env msg st))) = requests (trace st)"
    by (simp add: sendMessage_none [OF n] getAuthToken_requests)
  show "fst (getFiles env a st) = Inl (Error msg_no_token)"
    by (simp add: getFiles_none [OF n])
  show "requests (trace (snd (getFiles env a st))) = requests (trace st)"
    by (simp add: getFiles_none [OF n] getAuthToken_requests)
  show "fst (uploadFile env f st) = Inl (Error msg_no_token)"
    by (simp add: uploadFile_none [OF n])
  show "requests (trace (snd (uploadFile env f st))) = requests (trace st)"
    by (simp add: uploadFile_none [OF n] getAuthToken_requests)
next
  assume n: "fst (getAuthToken env (emit (Confirm msg_confirm_delete) st)) = Inr None"
  show "requests (trace (snd (deleteFile env fid st))) = requests (trace st)"
  proof (cases "confirm_reply env (now st)")
    case True
    then show ?thesis
      by (simp add: deleteFile_none [OF True n] getAuthToken_requests requests_emit)
  next
    case False
    then show ?thesis by (simp add: deleteFile_declined requests_emit)
  qed
  show "fst (deleteFile env fid st) = Inl (Error msg_no_token)" if "confirm_reply env (now st)"
    using that by (simp add: deleteFile_none [OF _ n])
  show "deleteFile env fid st = (Inr None, emit (Confirm msg_confirm_delete) st)"
    if "\<not> confirm_reply env (now st)"
    using that by (simp add: deleteFile_declined)
qed

lemma signed_out_token:
  "getAuthToken signed_out_env st =
     (Inr None,
      emit GetSession (if supabaseClient st then st
         else (emit (CreateClient ''https://project.supabase.co'' ''anon'') st)\<lparr>supabaseClient := True\<rparr>))"
  by (simp add: getAuthToken_def initSupabase_def signed_out_env_def example_env_def Let_def
        SUPABASE_URL_def SUPABASE_ANON_KEY_def js_or_def)

lemma signed_out_confirm: "confirm_reply signed_out_env t = False"
  by (simp add: signed_out_env_def)

text \<open>
  With nobody signed in and the confirmation declined, \<^verbatim>\<open>deleteFile\<close> returns normally:
  not every gateway call without a token throws.
\<close>

theorem deleteFile_declined_no_token_counterexample:
  "fst (getAuthToken signed_out_env example_state) = Inr None \<and>
   fst (getAuthToken signed_out_env (emit (Confirm msg_confirm_delete) example_state)) = Inr None \<and>
   fst (deleteFile signed_out_env ''file-1'' example_state) = Inr None"
  by (simp add: signed_out_token deleteFile_declined signed_out_confirm)

theorem no_token_no_request_witness:
  "fst (getAuthToken signed_out_env example_state) = Inr None \<and>
   fst (sendMessage signed_out_env ''hello'' example_state) = Inl (Error msg_no_token) \<and>
   requests (trace (snd (sendMessage signed_out_env ''hello'' example_state))) = [] \<and>
   fst (getAuthToken unloaded_env (emit (Confirm msg_confirm_delete) example_state)) = Inr None \<and>
   confirm_reply unloaded_env (now example_state) \<and>
   fst (deleteFile unloaded_env ''file-1'' example_state) = Inl (Error msg_no_token) \<and>
   requests (trace (snd (deleteFile unloaded_env ''file-1'' example_state))) = [] \<and>
   \<not> confirm_reply signed_out_env (now example_state) \<and>
   deleteFile signed_out_env ''file-1'' example_state
     = (Inr None, emit (Confirm msg_confirm_delete) example_state)"
proof -
  have a: "fst (getAuthToken signed_out_env example_state) = Inr None"
    by (simp add: signed_out_token)
  have b: "fst (getAuthToken signed_out_env (emit (Confirm msg_confirm_delete) example_state))
             = Inr None"
    by (simp add: signed_out_token)
  have c: "fst (getAuthToken unloaded_env (emit (Confirm msg_confirm_delete) example_state))
             = Inr None"
    by (simp add: getAuthToken_def initSupabase_def unloaded_env_def)
  have d: "confirm_reply unloaded_env (now example_state)"
    by (simp add: unloaded_env_def example_env_def)
  have e: "requests (trace example_state) = []"
    by (simp add: example_state_def)
  show ?thesis
    using no_token_no_request [of signed_out_env example_state "''hello''" None
            "File ''a.txt'' ''abc''" "''file-1''"]
          no_token_no_request [of unloaded_env example_state "''hello''" None
            "File ''a.txt'' ''abc''" "''file-1''"]
          a b c d e
    by (simp add: signed_out_confirm)
qed


subsection \<open>Gateway calls with a token\<close>

lemma js_fetch_eq:
  "js_fetch env req st =
     (case fetch_reply env (now st) req of NetworkFailure m \<Rightarrow> Inl (TypeError m)
                                         | Response r \<Rightarrow> Inr r,
      emit (Fetch req) st)"
  by (simp add: js_fetch_def split: fetch_outcome.splits)

lemma sendMessage_token:
  assumes "fst (getAuthToken env st) = Inr (Some t)" and "t \<noteq> []"
  shows "sendMessage env msg st =
     (reply_result env msg_send_failed
        (fetch_reply env (now (snd (getAuthToken env st))) (chat_request env (auth_headers t) msg)),
      emit (Fetch (chat_request env (auth_headers t) msg)) (snd (getAuthToken env st)))"
  by (simp add: sendMessage_def getAuthHeaders_token [OF assms] js_fetch_eq reply_result_def
           split: fetch_outcome.splits)

lemma getFiles_token:
  assumes "fst (getAuthToken env st) = Inr (Some t)" and "t \<noteq> []"
  shows "getFiles env a st =
     (reply_result env msg_files_failed
        (fetch_reply env (now (snd (getAuthToken env st)))
           (files_request (API_BASE_URL env @ ''/admin/files''
              @ (case a of None \<Rightarrow> [] | Some s \<Rightarrow> if s \<noteq> [] then ''?status='' @ s else []))
              (auth_headers t))),
      emit (Fetch (files_request (API_BASE_URL env @ ''/admin/files''
              @ (case a of None \<Rightarrow> [] | Some s \<Rightarrow> if s \<noteq> [] then ''?status='' @ s else []))
              (auth_headers t)))
        (snd (getAuthToken env st)))"
  by (simp add: getFiles_def getAuthHeaders_token [OF assms] js_fetch_eq reply_result_def Let_def
           split: fetch_outcome.splits option.splits)

lemma upload_headers:
  "upload_request env (filter (\<lambda>(k, v). k \<noteq> ''Content-Type'') (auth_headers t)) fd
     = upload_request env [(''Authorization'', ''Bearer '' @ t)] fd"
  by (simp add: upload_request_def auth_headers_def header_value_def)

lemma uploadFile_token:
  assumes "fst (getAuthToken env st) = Inr (Some t)" and "t \<noteq> []"
  shows "uploadFile env f st =
     (reply_result env msg_upload_failed
        (fetch_reply env (now (snd (getAuthToken env st)))
           (upload_request env [(''Authorization'', ''Bearer '' @ t)] [(''file'', f)])),
      emit (Fetch (upload_request env [(''Authorization'', ''Bearer '' @ t)] [(''file'', f)]))
        (snd (getAuthToken env st)))"
  by (simp add: uploadFile_def getAuthHeaders_token [OF assms] js_fetch_eq reply_result_def Let_def
        upload_headers split: fetch_outcome.splits)

lemma deleteFile_token:
  assumes "confirm_reply env (now st)"
    and "fst (getAuthToken env (emit (Confirm msg_confirm_delete) st)) = Inr (Some t)" and "t \<noteq> []"
  shows "deleteFile env fid st =
     (map_sum id Some
        (reply_result env msg_delete_failed
           (fetch_reply env (now (snd (getAuthToken env (emit (Confirm msg_confirm_delete) st))))
              (delete_request env (auth_headers t) fid))),
      emit (Fetch (delete_request env (auth_headers t) fid))
        (snd (getAuthToken env (emit (Confirm msg_confirm_delete) st))))"
  using assms(1)
  by (simp add: deleteFile_def getAuthHeaders_token [OF assms(2,3)] js_fetch_eq reply_result_def
           split: fetch_outcome.splits sum.splits)

subsection \<open>The session provider and the page guard\<close>











lemma example_getCurrentUser:
  "getCurrentUser example_env example_state =
     (Inr (Some example_user),
      example_state\<lparr>supabaseClient := True,
        trace := [CreateClient ''https://project.supabase.co'' ''anon'', GetUser]\<rparr>)"
  by (simp add: getCurrentUser_def initSupabase_def example_env_def example_state_def emit_def
      now_def SUPABASE_URL_def SUPABASE_ANON_KEY_def js_or_def Let_def)

lemma unloaded_getCurrentUser:
  "getCurrentUser unloaded_env st = (Inr None, emit (ConsoleError [msg_supabase_not_loaded]) st)"
  by (simp add: getCurrentUser_def initSupabase_def unloaded_env_def)


text \<open>
  Claim C7. \<^verbatim>\<open>requireAuth\<close> returns true and leaves the location alone when
  \<^verbatim>\<open>getCurrentUser\<close> yields a user; otherwise it sets the location to \<^verbatim>\<open>/login.html\<close> and
  returns false.
\<close>

theorem requireAuth_spec:
  "(fst (getCurrentUser env st) = Inr (Some u) \<longrightarrow>
      requireAuth env st = (Inr True, snd (getCurrentUser env st))) \<and>
   (fst (getCurrentUser env st) = Inr None \<longrightarrow>
      requireAuth env st =
        (Inr False, (snd (getCurrentUser env st))\<lparr>location_href := ''/login.html''\<rparr>))"
  by (cases "getCurrentUser env st") (auto simp: requireAuth_def checkAuth_def)

theorem requireAuth_spec_witness:
  "fst (getCurrentUser example_env example_state) = Inr (Some example_user) \<and>
   fst (requireAuth example_env example_state) = Inr True \<and>
   location_href (snd (requireAuth example_env example_state)) = ''/index.html'' \<and>
   fst (getCurrentUser unloaded_env example_state) = Inr None \<and>
   fst (requireAuth unloaded_env example_state) = Inr False \<and>
   location_href (snd (requireAuth unloaded_env example_state)) = ''/login.html''"
proof -
  have u: "fst (getCurrentUser example_env example_state) = Inr (Some example_user)"
    by (simp add: example_getCurrentUser)
  have n: "fst (getCurrentUser unloaded_env example_state) = Inr None"
    by (simp add: unloaded_getCurrentUser)
  have h: "location_href example_state = ''/index.html''"
    by (simp add: example_state_def)
  from u requireAuth_spec [of example_env example_state example_user]
  have a: "requireAuth example_env example_state
             = (Inr True, snd (getCurrentUser example_env example_state))"
    by blast
  from n requireAuth_spec [of unloaded_env example_state example_user]
  have b: "requireAuth unloaded_env example_state
             = (Inr False, (snd (getCurrentUser unloaded_env example_state))
                  \<lparr>location_href := ''/login.html''\<rparr>)"
    by blast
  show ?thesis
    using u n h by (simp add: a b example_getCurrentUser)
qed



subsection \<open>What a gateway call sends, and what it makes of a failure\<close>

lemma requests_emit_fetch [simp]:
  "requests (trace (emit (Fetch r) st)) = requests (trace st) @ [r]"
  by (simp add: requests_emit)

text \<open>
  Claim C4. With a token \<open>t\<close> available, the request sent by \<^verbatim>\<open>sendMessage\<close>,
  \<^verbatim>\<open>getFiles\<close> and \<^verbatim>\<open>deleteFile\<close> has exactly the headers \<^verbatim>\<open>Authorization: Bearer t\<close>
  and \<^verbatim>\<open>Content-Type: application/json\<close>; the request sent by \<^verbatim>\<open>uploadFile\<close> has the
  \<^verbatim>\<open>Authorization\<close> header alone.
\<close>

theorem gateway_request_headers:
  "(fst (getAuthToken env st) = Inr (Some t) \<and> t \<noteq> [] \<longrightarrow>
      map headers (requests (trace (snd (sendMessage env msg st))))
        = map headers (requests (trace st))
          @ [[(''Authorization'', ''Bearer '' @ t), (''Content-Type'', ''application/json'')]] \<and>
      map headers (requests (trace (snd (getFiles env a st))))
        = map headers (requests (trace st))
          @ [[(''Authorization'', ''Bearer '' @ t), (''Content-Type'', ''application/json'')]] \<and>
      map headers (requests (trace (snd (uploadFile env f st))))
        = map headers (requests (trace st)) @ [[(''Authorization'', ''Bearer '' @ t)]]) \<and>
   (confirm_reply env (now st) \<and>
    fst (getAuthToken env (emit (Confirm msg_confirm_delete) st)) = Inr (Some t) \<and> t \<noteq> [] \<longrightarrow>
      map headers (requests (trace (snd (deleteFile env fid st))))
        = map headers (requests (trace st))
          @ [[(''Authorization'', ''Bearer '' @ t), (''Content-Type'', ''application/json'')]])"
proof (intro conjI impI)
  assume h: "fst (getAuthToken env st) = Inr (Some t) \<and> t \<noteq> []"
  then have tk: "fst (getAuthToken env st) = Inr (Some t)" and ne: "t \<noteq> []"
    by simp_all
  show "map headers (requests (trace (snd (sendMessage env msg st))))
        = map headers (requests (trace st))
          @ [[(''Authorization'', ''Bearer '' @ t), (''Content-Type'', ''application/json'')]]"
    by (simp add: sendMessage_token [OF tk ne] getAuthToken_requests chat_request_def
          auth_headers_def)
  show "map headers (requests (trace (snd (getFiles env a st))))
        = map headers (requests (trace st))
          @ [[(''Authorization'', ''Bearer '' @ t), (''Content-Type'', ''application/json'')]]"
    by (simp add: getFiles_token [OF tk ne] getAuthToken_requests files_request_def
          auth_headers_def)
  show "map headers (requests (trace (snd (uploadFile env f st))))
        = map headers (requests (trace st)) @ [[(''Authorization'', ''Bearer '' @ t)]]"
    by (simp add: uploadFile_token [OF tk ne] getAuthToken_requests upload_request_def
          header_value_def)
next
  assume h: "confirm_reply env (now st) \<and>
    fst (getAuthToken env (emit (Confirm msg_confirm_delete) st)) = Inr (Some t) \<and> t \<noteq> []"
  then have c: "confirm_reply env (now st)"
    and tk: "fst (getAuthToken env (emit (Confirm msg_confirm_delete) st)) = Inr (Some t)"
    and ne: "t \<noteq> []"
    by simp_all
  show "map headers (requests (trace (snd (deleteFile env fid st))))
        = map headers (requests (trace st))
          @ [[(''Authorization'', ''Bearer '' @ t), (''Content-Type'', ''application/json'')]]"
    by (simp add: deleteFile_token [OF c tk ne] getAuthToken_requests delete_request_def
          auth_headers_def requests_emit)
qed

text \<open>
  Claim C10. With a token available, \<^verbatim>\<open>getFiles\<close> requests the files-list URL followed
  by \<^verbatim>\<open>?status=\<close> and the status as it is when the status is a non-empty string, and
  the files-list URL alone when the status is \<^verbatim>\<open>null\<close> or empty.
\<close>

theorem getFiles_url:
  "fst (getAuthToken env st) = Inr (Some t) \<and> t \<noteq> [] \<longrightarrow>
     (\<forall>s. a = Some s \<and> s \<noteq> [] \<longrightarrow>
        map url (requests (trace (snd (getFiles env a st))))
          = map url (requests (trace st)) @ [API_BASE_URL env @ ''/admin/files'' @ ''?status='' @ s]) \<and>
     (a = None \<or> a = Some [] \<longrightarrow>
        map url (requests (trace (snd (getFiles env a st))))
          = map url (requests (trace st)) @ [API_BASE_URL env @ ''/admin/files''])"
proof (intro impI)
  assume h: "fst (getAuthToken env st) = Inr (Some t) \<and> t \<noteq> []"
  then have tk: "fst (getAuthToken env st) = Inr (Some t)" and ne: "t \<noteq> []"
    by simp_all
  show "(\<forall>s. a = Some s \<and> s \<noteq> [] \<longrightarrow>
        map url (requests (trace (snd (getFiles env a st))))
          = map url (requests (trace st)) @ [API_BASE_URL env @ ''/admin/files'' @ ''?status='' @ s]) \<and>
     (a = None \<or> a = Some [] \<longrightarrow>
        map url (requests (trace (snd (getFiles env a st))))
          = map url (requests (trace st)) @ [API_BASE_URL env @ ''/admin/files''])"
    by (auto simp: getFiles_token [OF tk ne] getAuthToken_requests files_request_def)
qed

lemma read_response_detail:
  "\<not> ok r \<Longrightarrow> json_body r = Inr (JObj kvs) \<Longrightarrow> map_of kvs ''detail'' = Some (JStr d) \<Longrightarrow>
   d \<noteq> [] \<Longrightarrow> read_response env fb r = Inl (Error d)"
  by (simp add: read_response_def get_prop_def truthy_def template_string_def)

lemma read_response_fallback:
  "\<not> ok r \<Longrightarrow> json_body r = Inr v \<Longrightarrow> v \<noteq> JNull \<Longrightarrow> \<not> truthy env (member v ''detail'') \<Longrightarrow>
   read_response env fb r = Inl (Error fb)"
  by (cases v) (auto simp: read_response_def get_prop_def member_def truthy_def)

lemma read_response_unparseable:
  "\<not> ok r \<Longrightarrow> json_body r = Inl m \<Longrightarrow> read_response env fb r = Inl (SyntaxError m)"
  by (simp add: read_response_def)

lemma fallbacks_nonempty:
  "msg_send_failed \<noteq> []" "msg_files_failed \<noteq> []" "msg_upload_failed \<noteq> []"
  "msg_delete_failed \<noteq> []"
  by (simp_all add: msg_send_failed_def msg_files_failed_def msg_upload_failed_def
        msg_delete_failed_def)


text \<open>
  Claim C2. A gateway call that receives a response \<open>r\<close> with a status outside 200 to 299
  ends as \<open>read_response\<close> says, with the call's own non-empty fallback text: the error's
  message is the \<^verbatim>\<open>detail\<close> of the body when that is a non-empty string; it is the
  fallback when the body is JSON other than \<^verbatim>\<open>null\<close> and \<^verbatim>\<open>detail\<close> is absent or falsy;
  and when the body is not JSON the \<^verbatim>\<open>SyntaxError\<close> of \<^verbatim>\<open>response.json()\<close> is what the
  call throws.
\<close>

theorem non_2xx_error_message:
  "\<not> ok r \<longrightarrow>
     (fst (getAuthToken env st) = Inr (Some t) \<and> t \<noteq> [] \<longrightarrow>
        (fetch_reply env (now (snd (getAuthToken env st))) (chat_request env (auth_headers t) msg)
           = Response r \<longrightarrow>
         fst (sendMessage env msg st) = read_response env msg_send_failed r) \<and>
        (fetch_reply env (now (snd (getAuthToken env st)))
           (files_request (API_BASE_URL env @ ''/admin/files''
              @ (case a of None \<Rightarrow> [] | Some s \<Rightarrow> if s \<noteq> [] then ''?status='' @ s else []))
              (auth_headers t))
           = Response r \<longrightarrow>
         fst (getFiles env a st) = read_response env msg_files_failed r) \<and>
        (fetch_reply env (now (snd (getAuthToken env st)))
           (upload_request env [(''Authorization'', ''Bearer '' @ t)] [(''file'', f)])
           = Response r \<longrightarrow>
         fst (uploadFile env f st) = read_response env msg_upload_failed r)) \<and>
     (confirm_reply env (now st) \<and>
      fst (getAuthToken env (emit (Confirm msg_confirm_delete) st)) = Inr (Some t) \<and> t \<noteq> [] \<and>
      fetch_reply env (now (snd (getAuthToken env (emit (Confirm msg_confirm_delete) st))))
        (delete_request env (auth_headers t) fid) = Response r \<longrightarrow>
        fst (deleteFile env fid st) = map_sum id Some (read_response env msg_delete_failed r)) \<and>
     (\<forall>kvs d. json_body r = Inr (JObj kvs) \<and> map_of kvs ''detail'' = Some (JStr d) \<and> d \<noteq> [] \<longrightarrow>
        read_response env fb r = Inl (Error d)) \<and>
     (\<forall>v. json_body r = Inr v \<and> v \<noteq> JNull \<and> \<not> truthy env (member v ''detail'') \<longrightarrow>
        read_response env fb r = Inl (Error fb)) \<and>
     (\<forall>m. json_body r = Inl m \<longrightarrow> read_response env fb r = Inl (SyntaxError m)) \<and>
     msg_send_failed \<noteq> [] \<and> msg_files_failed \<noteq> [] \<and> msg_upload_failed \<noteq> [] \<and>
     msg_delete_failed \<noteq> []"
proof (intro impI conjI allI)
  assume nok: "\<not> ok r"
  show "read_response env fb r = Inl (Error d)"
    if "json_body r = Inr (JObj kvs) \<and> map_of kvs ''detail'' = Some (JStr d) \<and> d \<noteq> []"
    for kvs d
    using that nok by (simp add: read_response_detail)
  show "read_response env fb r = Inl (Error fb)"
    if "json_body r = Inr v \<and> v \<noteq> JNull \<and> \<not> truthy env (member v ''detail'')" for v
    using that nok by (simp add: read_response_fallback)
  show "read_response env fb r = Inl (SyntaxError m)" if "json_body r = Inl m" for m
    using that nok by (simp add: read_response_unparseable)
  show "fst (deleteFile env fid st) = map_sum id Some (read_response env msg_delete_failed r)"
    if "confirm_reply env (now st) \<and>
      fst (getAuthToken env (emit (Confirm msg_confirm_delete) st)) = Inr (Some t) \<and> t \<noteq> [] \<and>
      fetch_reply env (now (snd (getAuthToken env (emit (Confirm msg_confirm_delete) st))))
        (delete_request env (auth_headers t) fid) = Response r"
    using that by (simp add: deleteFile_token reply_result_def)
next
  assume h: "fst (getAuthToken env st) = Inr (Some t) \<and> t \<noteq> []"
  then have tk: "fst (getAuthToken env st) = Inr (Some t)" and ne: "t \<noteq> []"
    by simp_all
  show "fst (sendMessage env msg st) = read_response env msg_send_failed r"
    if "fetch_reply env (now (snd (getAuthToken env st))) (chat_request env (auth_headers t) msg)
           = Response r"
    using that by (simp add: sendMessage_token [OF tk ne] reply_result_def)
  show "fst (getFiles env a st) = read_response env msg_files_failed r"
    if "fetch_reply env (now (snd (getAuthToken env st)))
           (files_request (API_BASE_URL env @ ''/admin/files''
              @ (case a of None \<Rightarrow> [] | Some s \<Rightarrow> if s \<noteq> [] then ''?status='' @ s else []))
              (auth_headers t))
           = Response r"
    using that by (simp add: getFiles_token [OF tk ne] reply_result_def)
  show "fst (uploadFile env f st) = read_response env msg_upload_failed r"
    if "fetch_reply env (now (snd (getAuthToken env st)))
           (upload_request env [(''Authorization'', ''Bearer '' @ t)] [(''file'', f)])
           = Response r"
    using that by (simp add: uploadFile_token [OF tk ne] reply_result_def)
qed (simp_all add: fallbacks_nonempty)

lemma example_token:
  "fst (getAuthToken example_env st) = Inr (Some ''tok'')"
  by (simp add: getAuthToken_def initSupabase_def example_env_def Let_def)

lemma failing_token:
  "fst (getAuthToken (failing_env b) st) = Inr (Some ''tok'')"
  by (simp add: getAuthToken_def initSupabase_def failing_env_def example_env_def Let_def)

lemma failing_reply:
  "fetch_reply (failing_env b) t q = Response \<lparr>status = 500, json_body = b\<rparr>"
  by (simp add: failing_env_def)

text \<open>
  A 500 response whose body is not JSON: \<^verbatim>\<open>sendMessage\<close> throws the parse error, and
  its message is not the fallback.
\<close>

theorem unparseable_body_counterexample:
  "\<not> ok (\<lparr>status = 500, json_body = Inl ''Unexpected token <''\<rparr> :: rat response) \<and>
   fst (sendMessage (failing_env (Inl ''Unexpected token <'')) ''hello'' example_state)
     = Inl (SyntaxError ''Unexpected token <'') \<and>
   error_message (SyntaxError ''Unexpected token <'') \<noteq> msg_send_failed"
proof -
  have tk: "fst (getAuthToken (failing_env (Inl ''Unexpected token <'')) example_state)
              = Inr (Some ''tok'')"
    by (rule failing_token)
  have "fst (sendMessage (failing_env (Inl ''Unexpected token <'')) ''hello'' example_state)
          = Inl (SyntaxError ''Unexpected token <'')"
    by (simp add: sendMessage_token [OF tk] reply_result_def failing_reply read_response_def ok_def)
  moreover have "error_message (SyntaxError ''Unexpected token <'') \<noteq> msg_send_failed"
    by (simp add: msg_send_failed_def)
  ultimately show ?thesis by (simp add: ok_def)
qed

lemma failing_confirm: "confirm_reply (failing_env b) t"
  by (simp add: failing_env_def example_env_def)

theorem non_2xx_error_message_witness:
  "\<not> ok (\<lparr>status = 500, json_body = Inr (JObj [(''detail'', JStr ''File too large'')])\<rparr>
           :: rat response) \<and>
   fst (getAuthToken (failing_env (Inr (JObj [(''detail'', JStr ''File too large'')]))) example_state)
     = Inr (Some ''tok'') \<and>
   fst (sendMessage (failing_env (Inr (JObj [(''detail'', JStr ''File too large'')]))) ''hello''
          example_state)
     = Inl (Error ''File too large'') \<and>
   fst (getFiles (failing_env (Inr (JObj [(''detail'', JStr ''File too large'')]))) (Some ''indexed'')
          example_state)
     = Inl (Error ''File too large'') \<and>
   fst (uploadFile (failing_env (Inr (JObj [(''detail'', JStr ''File too large'')])))
          (File ''a.txt'' ''abc'') example_state)
     = Inl (Error ''File too large'') \<and>
   confirm_reply (failing_env (Inr (JObj [(''detail'', JStr ''File too large'')])))
     (now example_state) \<and>
   fst (deleteFile (failing_env (Inr (JObj [(''detail'', JStr ''File too large'')]))) ''file-1''
          example_state)
     = Inl (Error ''File too large'') \<and>
   read_response example_env msg_files_failed \<lparr>status = 404, json_body = Inr (JObj [])\<rparr>
     = Inl (Error msg_files_failed) \<and>
   read_response example_env msg_files_failed \<lparr>status = 502, json_body = Inl ''Unexpected token <''\<rparr>
     = Inl (SyntaxError ''Unexpected token <'')"
proof -
  let ?b = "Inr (JObj [(''detail'', JStr ''File too large'')]) :: string + rat json"
  let ?r = "\<lparr>status = 500, json_body = ?b\<rparr>"
  let ?E = "failing_env ?b"
  note th = non_2xx_error_message [where r = ?r and env = ?E and st = example_state
      and t = "''tok''" and msg = "''hello''" and a = "Some ''indexed''"
      and f = "File ''a.txt'' ''abc''" and fid = "''file-1''"]
  have nok: "\<not> ok ?r" by (simp add: ok_def)
  have tk: "fst (getAuthToken ?E s) = Inr (Some ''tok'')" for s
    by (rule failing_token)
  have rp: "fetch_reply ?E n q = Response ?r" for n q
    by (rule failing_reply)
  have cf: "confirm_reply ?E (now example_state)"
    by (rule failing_confirm)
  have d: "read_response ?E fb ?r = Inl (Error ''File too large'')" for fb
    using th [where fb = fb] nok by simp
  have a1: "fst (sendMessage ?E ''hello'' example_state) = Inl (Error ''File too large'')"
    using th [where fb = msg_send_failed] nok tk rp by (simp add: d)
  have a2: "fst (getFiles ?E (Some ''indexed'') example_state) = Inl (Error ''File too large'')"
    using th [where fb = msg_send_failed] nok tk rp by (simp add: d)
  have a3: "fst (uploadFile ?E (File ''a.txt'' ''abc'') example_state)
              = Inl (Error ''File too large'')"
    using th [where fb = msg_send_failed] nok tk rp by (simp add: d)
  have a4: "fst (deleteFile ?E ''file-1'' example_state) = Inl (Error ''File too large'')"
    using th [where fb = msg_send_failed] nok tk rp cf by (simp add: d)
  have c: "read_response example_env msg_files_failed \<lparr>status = 404, json_body = Inr (JObj [])\<rparr>
             = Inl (Error msg_files_failed)"
    using non_2xx_error_message [where r = "\<lparr>status = 404, json_body = Inr (JObj [])\<rparr>"
            and env = example_env and fb = msg_files_failed]
    by (simp add: ok_def member_def truthy_def)
  have e: "read_response example_env msg_files_failed
             \<lparr>status = 502, json_body = Inl ''Unexpected token <''\<rparr>
             = Inl (SyntaxError ''Unexpected token <'')"
    using non_2xx_error_message
            [where r = "\<lparr>status = 502, json_body = Inl ''Unexpected token <''\<rparr>"
             and env = example_env and fb = msg_files_failed]
    by (simp add: ok_def)
  show ?thesis using nok tk cf a1 a2 a3 a4 c e by simp
qed

lemma example_confirm: "confirm_reply example_env t"
  by (simp add: example_env_def)

lemma example_requests: "requests (trace example_state) = []"
  by (simp add: example_state_def)

theorem gateway_request_headers_witness:
  "fst (getAuthToken example_env example_state) = Inr (Some ''tok'') \<and>
   map headers (requests (trace (snd (sendMessage example_env ''hello'' example_state))))
     = [[(''Authorization'', ''Bearer tok''), (''Content-Type'', ''application/json'')]] \<and>
   map headers (requests (trace (snd (uploadFile example_env (File ''a.txt'' ''abc'') example_state))))
     = [[(''Authorization'', ''Bearer tok'')]] \<and>
   confirm_reply example_env (now example_state) \<and>
   fst (getAuthToken example_env (emit (Confirm msg_confirm_delete) example_state))
     = Inr (Some ''tok'') \<and>
   map headers (requests (trace (snd (deleteFile example_env ''file-1'' example_state))))
     = [[(''Authorization'', ''Bearer tok''), (''Content-Type'', ''application/json'')]]"
  using gateway_request_headers [of example_env example_state "''tok''" "''hello''" None
          "File ''a.txt'' ''abc''" "''file-1''"]
  by (simp add: example_token example_confirm example_requests)

lemma example_base_url: "API_BASE_URL example_env = ''http://localhost:7071/api''"
  by (simp add: API_BASE_URL_def js_or_def example_env_def)

theorem getFiles_url_witness:
  "fst (getAuthToken example_env example_state) = Inr (Some ''tok'') \<and>
   map url (requests (trace (snd (getFiles example_env (Some ''a b&c=d'') example_state))))
     = [''http://localhost:7071/api/admin/files?status=a b&c=d''] \<and>
   map url (requests (trace (snd (getFiles example_env None example_state))))
     = [''http://localhost:7071/api/admin/files''] \<and>
   map url (requests (trace (snd (getFiles example_env (Some []) example_state))))
     = [''http://localhost:7071/api/admin/files'']"
  using getFiles_url [of example_env example_state "''tok''" "Some ''a b&c=d''"]
        getFiles_url [of example_env example_state "''tok''" None]
        getFiles_url [of example_env example_state "''tok''" "Some []"]
  by (simp add: example_token example_requests example_base_url)

subsection \<open>The deletion workflow\<close>

lemma getAuthToken_frame:
  "\<exists>c es. snd (getAuthToken env st) = st\<lparr>supabaseClient := c, trace := trace st @ es\<rparr>
          \<and> requests es = []"
proof (cases "supabase_defined env")
  case False
  then have "snd (getAuthToken env st)
      = st\<lparr>supabaseClient := supabaseClient st,
            trace := trace st @ [ConsoleError [msg_supabase_not_loaded]]\<rparr>"
    by (simp add: getAuthToken_def initSupabase_def emit_def)
  moreover have "requests [ConsoleError [msg_supabase_not_loaded]] = []"
    by simp
  ultimately show ?thesis by blast
next
  case True
  show ?thesis
  proof (cases "supabaseClient st")
    case c: True
    have "snd (getAuthToken env st)
        = st\<lparr>supabaseClient := supabaseClient st, trace := trace st @ [GetSession]\<rparr>"
      using True c
      by (simp add: getAuthToken_def initSupabase_def emit_def Let_def split: option.splits)
    moreover have "requests [GetSession] = []"
      by simp
    ultimately show ?thesis by blast
  next
    case c: False
    have "snd (getAuthToken env st)
        = st\<lparr>supabaseClient := True,
              trace := trace st @ [CreateClient (SUPABASE_URL env) (SUPABASE_ANON_KEY env),
                                   GetSession]\<rparr>"
      using True c
      by (simp add: getAuthToken_def initSupabase_def emit_def Let_def split: option.splits)
    moreover have "requests [CreateClient (SUPABASE_URL env) (SUPABASE_ANON_KEY env), GetSession]
                     = []"
      by simp
    ultimately show ?thesis by blast
  qed
qed

lemma getAuthHeaders_snd: "snd (getAuthHeaders env st) = snd (getAuthToken env st)"
  using getAuthToken_never_throws [of env st]
  by (cases "getAuthToken env st") (auto simp: getAuthHeaders_def split: option.splits)

lemma getFiles_frame:
  "\<exists>c es. snd (getFiles env a st) = st\<lparr>supabaseClient := c, trace := trace st @ es\<rparr>
          \<and> (\<forall>q \<in> set (requests es). http_method q = ''GET'')"
proof -
  obtain c es where f: "snd (getAuthToken env st) = st\<lparr>supabaseClient := c, trace := trace st @ es\<rparr>"
    and r: "requests es = []"
    using getAuthToken_frame by blast
  show ?thesis
  proof (cases "getAuthHeaders env st")
    case (Pair res st1)
    then have st1: "st1 = st\<lparr>supabaseClient := c, trace := trace st @ es\<rparr>"
      using getAuthHeaders_snd [of env st] f by simp
    show ?thesis
    proof (cases res)
      case (Inl e)
      then have "snd (getFiles env a st) = st\<lparr>supabaseClient := c, trace := trace st @ es\<rparr>"
        using Pair st1 by (simp add: getFiles_def)
      then show ?thesis using r by fastforce
    next
      case (Inr hdrs)
      define u where "u = API_BASE_URL env @ ''/admin/files''
        @ (case a of None \<Rightarrow> [] | Some s \<Rightarrow> if s \<noteq> [] then ''?status='' @ s else [])"
      have "snd (getFiles env a st)
              = st\<lparr>supabaseClient := c, trace := trace st @ (es @ [Fetch (files_request u hdrs)])\<rparr>"
        using Pair Inr st1
        by (auto simp: getFiles_def Let_def js_fetch_eq emit_def u_def
                 split: fetch_outcome.splits option.splits)
      moreover have "\<forall>q \<in> set (requests (es @ [Fetch (files_request u hdrs)])). http_method q = ''GET''"
        using r by (simp add: requests_append files_request_def)
      ultimately show ?thesis by blast
    qed
  qed
qed

lemma displayFiles_frame:
  "\<exists>rows. snd (displayFiles env files st) = st\<lparr>files_tbody := rows\<rparr>"
proof (cases "files_tbody st")
  case None
  then have "snd (displayFiles env files st) = st\<lparr>files_tbody := files_tbody st\<rparr>"
    by (simp add: displayFiles_def)
  then show ?thesis by blast
next
  case (Some old)
  then show ?thesis
    by (auto simp: displayFiles_def Let_def split: option.splits json.splits prod.splits)
qed

lemma showAlert_trace:
  "\<exists>es. trace (showAlert m ty st) = trace st @ es \<and> requests es = []"
proof (cases "alert_message st")
  case None
  then show ?thesis by (simp add: showAlert_def)
next
  case (Some a)
  then have "trace (showAlert m ty st) = trace st @ [SetTimeout 5000]"
    by (simp add: showAlert_def emit_def)
  moreover have "requests [SetTimeout 5000] = []"
    by simp
  ultimately show ?thesis by blast
qed

lemma showAlert_alert:
  "alert_message st \<noteq> None \<Longrightarrow>
   alert_message (showAlert m ty st)
     = Some \<lparr>alert_className = ''alert alert-'' @ ty, alert_textContent = m,
             alert_display = ''block''\<rparr>"
  by (auto simp: showAlert_def emit_def)

lemma showAlert_present: "alert_message (showAlert m ty st) = None \<longleftrightarrow> alert_message st = None"
  by (auto simp: showAlert_def emit_def split: option.splits)


lemma showAlert_after:
  assumes "trace st1 = trace st @ es" and "\<forall>q \<in> set (requests es). http_method q = ''GET''"
    and "alert_message st1 = alert_message st"
  shows "(\<exists>es'. trace (showAlert m ty st1) = trace st @ es'
            \<and> (\<forall>q \<in> set (requests es'). http_method q = ''GET''))
         \<and> (alert_message (showAlert m ty st1) = None \<longleftrightarrow> alert_message st = None)"
proof -
  obtain es2 where t: "trace (showAlert m ty st1) = trace st1 @ es2" and r: "requests es2 = []"
    using showAlert_trace by blast
  have "trace (showAlert m ty st1) = trace st @ (es @ es2)"
    using t assms(1) by simp
  moreover have "\<forall>q \<in> set (requests (es @ es2)). http_method q = ''GET''"
    using r assms(2) by (simp add: requests_append)
  ultimately show ?thesis
    using assms(3) showAlert_present [of m ty st1] by metis
qed

lemma loadFiles_frame:
  "fst (loadFiles env st) = Inr () \<and>
   (\<exists>es. trace (snd (loadFiles env st)) = trace st @ es
         \<and> (\<forall>q \<in> set (requests es). http_method q = ''GET'')) \<and>
   (alert_message (snd (loadFiles env st)) = None \<longleftrightarrow> alert_message st = None)"
proof -
  define a where "a = (if js_or (status_filter st) [] \<noteq> [] then Some (js_or (status_filter st) [])
                       else None)"
  obtain c es where f: "snd (getFiles env a st) = st\<lparr>supabaseClient := c, trace := trace st @ es\<rparr>"
    and g: "\<forall>q \<in> set (requests es). http_method q = ''GET''"
    using getFiles_frame by blast
  obtain res st1 where p: "getFiles env a st = (res, st1)"
    by (cases "getFiles env a st")
  have st1: "st1 = st\<lparr>supabaseClient := c, trace := trace st @ es\<rparr>"
    using p f by simp
  have t1: "trace st1 = trace st @ es" and a1: "alert_message st1 = alert_message st"
    using st1 by simp_all
  show ?thesis
  proof (cases res)
    case (Inl e)
    then have l: "loadFiles env st = (Inr (), showAlert (message_or e msg_files_failed) ''error'' st1)"
      using p by (simp add: loadFiles_def a_def Let_def)
    show ?thesis
      using showAlert_after [OF t1 g a1] by (simp add: l)
  next
    case (Inr data)
    show ?thesis
    proof (cases "get_prop env (Some data) ''files''")
      case (Inl e)
      then have l: "loadFiles env st
                      = (Inr (), showAlert (message_or e msg_files_failed) ''error'' st1)"
        using p Inr by (simp add: loadFiles_def a_def Let_def)
      show ?thesis
        using showAlert_after [OF t1 g a1] by (simp add: l)
    next
      case files: (Inr files)
      obtain rows where d: "snd (displayFiles env files st1) = st1\<lparr>files_tbody := rows\<rparr>"
        using displayFiles_frame by blast
      obtain res2 st2 where p2: "displayFiles env files st1 = (res2, st2)"
        by (cases "displayFiles env files st1")
      have st2: "st2 = st1\<lparr>files_tbody := rows\<rparr>"
        using p2 d by simp
      have t2: "trace st2 = trace st @ es" and a2: "alert_message st2 = alert_message st"
        using st2 t1 a1 by simp_all
      show ?thesis
      proof (cases res2)
        case (Inl e)
        then have l: "loadFiles env st
                        = (Inr (), showAlert (message_or e msg_files_failed) ''error'' st2)"
          using p Inr files p2 by (simp add: loadFiles_def a_def Let_def)
        show ?thesis
          using showAlert_after [OF t2 g a2] by (simp add: l)
      next
        case r2: (Inr u)
        then have l: "loadFiles env st = (Inr (), st2)"
          using p Inr files p2 by (simp add: loadFiles_def a_def Let_def)
        show ?thesis
          using t2 g a2 by (auto simp: l)
      qed
    qed
  qed
qed

text \<open>
  Claim C6. \<^verbatim>\<open>deleteFile\<close> asks for the confirmation before anything else. When it is
  declined, \<^verbatim>\<open>deleteFile\<close> does nothing more: no request is sent and no token is asked
  for; and the requests of the whole \<^verbatim>\<open>handleDeleteFile\<close> run are only the \<^verbatim>\<open>GET\<close> of
  the list reload, so no \<^verbatim>\<open>POST\<close> to \<^verbatim>\<open>/admin/delete\<close> goes out.
\<close>

theorem declined_delete_sends_nothing:
  "(\<exists>rest. trace (snd (deleteFile env fid st)) = trace st @ Confirm msg_confirm_delete # rest) \<and>
   (\<not> confirm_reply env (now st) \<longrightarrow>
      trace (snd (deleteFile env fid st)) = trace st @ [Confirm msg_confirm_delete] \<and>
      requests (trace (snd (deleteFile env fid st))) = requests (trace st) \<and>
      token_queries (trace (snd (deleteFile env fid st))) = token_queries (trace st) \<and>
      (\<exists>new. requests (trace (snd (handleDeleteFile env fid st))) = requests (trace st) @ new \<and>
             (\<forall>q \<in> set new. http_method q = ''GET'')))"
proof (intro conjI impI)
  let ?st0 = "emit (Confirm msg_confirm_delete) st"
  show "\<exists>rest. trace (snd (deleteFile env fid st)) = trace st @ Confirm msg_confirm_delete # rest"
  proof (cases "confirm_reply env (now st)")
    case False
    then show ?thesis by (simp add: deleteFile_declined emit_def)
  next
    case True
    obtain c es where f: "snd (getAuthToken env ?st0)
                            = ?st0\<lparr>supabaseClient := c, trace := trace ?st0 @ es\<rparr>"
      using getAuthToken_frame by blast
    obtain res st1 where p: "getAuthHeaders env ?st0 = (res, st1)"
      by (cases "getAuthHeaders env ?st0")
    have t1: "trace st1 = trace st @ Confirm msg_confirm_delete # es"
      using p f getAuthHeaders_snd [of env ?st0] by (simp add: emit_def)
    show ?thesis
    proof (cases res)
      case (Inl e)
      then show ?thesis using True p t1 by (simp add: deleteFile_def)
    next
      case (Inr hdrs)
      then have "trace (snd (deleteFile env fid st))
                   = trace st @ Confirm msg_confirm_delete
                       # (es @ [Fetch (delete_request env hdrs fid)])"
        using True p t1
        by (simp add: deleteFile_def js_fetch_eq emit_def split: fetch_outcome.splits sum.splits)
      then show ?thesis by blast
    qed
  qed
next
  assume d: "\<not> confirm_reply env (now st)"
  let ?st0 = "emit (Confirm msg_confirm_delete) st"
  show "trace (snd (deleteFile env fid st)) = trace st @ [Confirm msg_confirm_delete]"
    using d by (simp add: deleteFile_declined emit_def)
  show "requests (trace (snd (deleteFile env fid st))) = requests (trace st)"
    using d by (simp add: deleteFile_declined requests_emit)
  show "token_queries (trace (snd (deleteFile env fid st))) = token_queries (trace st)"
    using d by (simp add: deleteFile_declined token_queries_emit)
  obtain es where l: "fst (loadFiles env ?st0) = Inr ()"
    and t: "trace (snd (loadFiles env ?st0)) = trace ?st0 @ es"
    and g: "\<forall>q \<in> set (requests es). http_method q = ''GET''"
    using loadFiles_frame [of env ?st0] by blast
  obtain st2 where p: "loadFiles env ?st0 = (Inr (), st2)"
    using l by (cases "loadFiles env ?st0") auto
  obtain es2 where t2: "trace (showAlert msg_deleted ''success'' st2) = trace st2 @ es2"
    and r2: "requests es2 = []"
    using showAlert_trace by blast
  have "handleDeleteFile env fid st = (Inr (), showAlert msg_deleted ''success'' st2)"
    using d p by (simp add: handleDeleteFile_def deleteFile_declined)
  then have "requests (trace (snd (handleDeleteFile env fid st)))
               = requests (trace st) @ requests es"
    using t t2 r2 p by (simp add: requests_append emit_def)
  then show "\<exists>new. requests (trace (snd (handleDeleteFile env fid st))) = requests (trace st) @ new \<and>
             (\<forall>q \<in> set new. http_method q = ''GET'')"
    using g by blast
qed

text \<open>
  Claim C9. When the confirmation is declined, \<^verbatim>\<open>deleteFile\<close> returns \<^verbatim>\<open>undefined\<close>
  without throwing, and \<^verbatim>\<open>handleDeleteFile\<close> goes on to reload the file list and to call
  \<^verbatim>\<open>showAlert\<close> with the deletion-success text; on a page that has the alert box, the box
  ends up showing that text.
\<close>

theorem declined_delete_reports_success:
  "\<not> confirm_reply env (now st) \<longrightarrow>
     fst (deleteFile env fid st) = Inr None \<and>
     handleDeleteFile env fid st
       = (Inr (), showAlert msg_deleted ''success''
                    (snd (loadFiles env (emit (Confirm msg_confirm_delete) st)))) \<and>
     (alert_message st \<noteq> None \<longrightarrow>
        alert_message (snd (handleDeleteFile env fid st))
          = Some \<lparr>alert_className = ''alert alert-success'', alert_textContent = msg_deleted,
                  alert_display = ''block''\<rparr>)"
proof (intro impI conjI)
  assume d: "\<not> confirm_reply env (now st)"
  let ?st0 = "emit (Confirm msg_confirm_delete) st"
  show "fst (deleteFile env fid st) = Inr None"
    using d by (simp add: deleteFile_declined)
  obtain st2 where p: "loadFiles env ?st0 = (Inr (), st2)"
    using loadFiles_frame [of env ?st0] by (cases "loadFiles env ?st0") auto
  show h: "handleDeleteFile env fid st
       = (Inr (), showAlert msg_deleted ''success'' (snd (loadFiles env ?st0)))"
    using d p by (simp add: handleDeleteFile_def deleteFile_declined)
  show "alert_message (snd (handleDeleteFile env fid st))
          = Some \<lparr>alert_className = ''alert alert-success'', alert_textContent = msg_deleted,
                  alert_display = ''block''\<rparr>"
    if "alert_message st \<noteq> None"
  proof -
    have "alert_message ?st0 \<noteq> None"
      using that by (simp add: emit_def)
    moreover have "alert_message (snd (loadFiles env ?st0)) = None
                     \<longleftrightarrow> alert_message ?st0 = None"
      using loadFiles_frame [of env ?st0] by simp
    ultimately have "alert_message (snd (loadFiles env ?st0)) \<noteq> None"
      by simp
    then show ?thesis
      using showAlert_alert [of "snd (loadFiles env ?st0)" msg_deleted "''success''"]
      by (simp add: h)
  qed
qed


lemma declining_confirm: "\<not> confirm_reply declining_env t"
  by (simp add: declining_env_def)

lemma example_trace: "trace example_state = []"
  by (simp add: example_state_def)

theorem declined_delete_sends_nothing_witness:
  "\<not> confirm_reply declining_env (now example_state) \<and>
   trace (snd (deleteFile declining_env ''file-1'' example_state)) = [Confirm msg_confirm_delete] \<and>
   requests (trace (snd (deleteFile declining_env ''file-1'' example_state))) = [] \<and>
   token_queries (trace (snd (deleteFile declining_env ''file-1'' example_state))) = 0 \<and>
   map http_method (requests (trace (snd (handleDeleteFile declining_env ''file-1'' example_state))))
     = [''GET'']"
proof -
  have "map http_method
          (requests (trace (snd (handleDeleteFile declining_env ''file-1'' example_state))))
          = [''GET'']"
    by code_simp
  then show ?thesis
    using declined_delete_sends_nothing [of declining_env "''file-1''" example_state]
    by (simp add: declining_confirm example_trace token_queries_def)
qed

theorem declined_delete_reports_success_witness:
  "\<not> confirm_reply declining_env (now example_state) \<and>
   fst (deleteFile declining_env ''file-1'' example_state) = Inr None \<and>
   alert_message example_state \<noteq> None \<and>
   alert_message (snd (handleDeleteFile declining_env ''file-1'' example_state))
     = Some \<lparr>alert_className = ''alert alert-success'', alert_textContent = msg_deleted,
             alert_display = ''block''\<rparr>"
proof -
  have a: "alert_message example_state \<noteq> None"
    by (simp add: example_state_def)
  have c: "\<not> confirm_reply declining_env (now example_state)"
    by (rule declining_confirm)
  show ?thesis
    using declined_delete_reports_success [of declining_env example_state "''file-1''"] a c
    by blast
qed

subsection \<open>Chat\<close>

lemma trim_test_question: "trim ''test question'' = ''test question''"
  by code_simp

lemma stringify_test_question:
  \<open>JSON_stringify [(''message'', ''test question'')] = ''{"message":"test question"}''\<close>
  by code_simp

lemma getAuthToken_same:
  assumes "supabaseClient s' = supabaseClient s" and "trace s' = trace s"
  shows "fst (getAuthToken env s') = fst (getAuthToken env s)"
    and "trace (snd (getAuthToken env s')) = trace (snd (getAuthToken env s))"
  using assms
  by (auto simp: getAuthToken_def initSupabase_def Let_def emit_def now_def split: option.splits)

lemma getAuthToken_chat: "chat_messages (snd (getAuthToken env s)) = chat_messages s"
  using getAuthToken_frame [of env s] by auto

lemma source_items_objects:
  "source_items env (map (\<lambda>(f, x). source_object f x) srcs)
     = Inr (map (\<lambda>(f, x). f @ txt_similarity_open @ toFixed env (times_100 env x) 1 @ ''%)'') srcs)"
  by (induction srcs)
     (auto simp: source_text_def source_object_def member_def template_string_def number_of_def)

lemma submit_try_ok:
  assumes tk: "fst (getAuthToken env s) = Inr (Some t)" and ne: "t \<noteq> []"
    and rp: "fetch_reply env (now (snd (getAuthToken env s))) (chat_request env (auth_headers t) msg)
               = Response r"
    and okr: "ok r" and bd: "json_body r = Inr (JObj kvs)"
    and ans: "map_of kvs ''answer'' = Some (JStr a)"
    and cm: "chat_messages s = Some ns"
  shows "map_of kvs ''sources'' = None \<Longrightarrow>
           submit_try env msg s
             = displayMessage env (Some (JStr a)) False
                 (emit (Fetch (chat_request env (auth_headers t) msg)) (snd (getAuthToken env s)))"
    and "map_of kvs ''sources'' = Some (JArr (map (\<lambda>(f, x). source_object f x) srcs)) \<Longrightarrow>
         srcs \<noteq> [] \<Longrightarrow>
           chat_messages (submit_try env msg s)
             = Some (ns @ [MessageNode ''message assistant'' txt_assistant a,
                           SourcesNode txt_references
                             (map (\<lambda>(f, x). f @ txt_similarity_open
                                     @ toFixed env (times_100 env x) 1 @ ''%)'') srcs)])
           \<and> trace (submit_try env msg s)
               = trace (snd (getAuthToken env s)) @ [Fetch (chat_request env (auth_headers t) msg)]"
proof -
  let ?s2 = "emit (Fetch (chat_request env (auth_headers t) msg)) (snd (getAuthToken env s))"
  have sm: "sendMessage env msg s = (Inr (JObj kvs), ?s2)"
    using rp okr bd
    by (simp add: sendMessage_token [OF tk ne] reply_result_def read_response_def)
  have c2: "chat_messages ?s2 = Some ns"
    using cm by (simp add: emit_def getAuthToken_chat)
  show "submit_try env msg s = displayMessage env (Some (JStr a)) False ?s2"
    if "map_of kvs ''sources'' = None"
    using that ans
    by (simp add: submit_try_def sm get_prop_def member_def truthy_def Let_def)
  show "chat_messages (submit_try env msg s)
             = Some (ns @ [MessageNode ''message assistant'' txt_assistant a,
                           SourcesNode txt_references
                             (map (\<lambda>(f, x). f @ txt_similarity_open
                                     @ toFixed env (times_100 env x) 1 @ ''%)'') srcs)])
           \<and> trace (submit_try env msg s)
               = trace (snd (getAuthToken env s)) @ [Fetch (chat_request env (auth_headers t) msg)]"
    if "map_of kvs ''sources'' = Some (JArr (map (\<lambda>(f, x). source_object f x) srcs))"
      and "srcs \<noteq> []"
    using that ans c2
    by (simp add: submit_try_def sm get_prop_def member_def truthy_def Let_def
          length_positive_def length_is_zero_def displaySources_def displayMessage_def
          source_items_objects text_content_def emit_def)
qed


lemma submit_listener_steps:
  assumes "trim (message_input_value st) = msg" and "msg \<noteq> []"
  shows "\<exists>s. submit_listener env st
               = (submit_try env msg s)
                   \<lparr>message_input_disabled := False,
                    submit_button :=
                      map_option (\<lambda>b. \<lparr>button_disabled = False, button_content = txt_send\<rparr>)
                        (submit_button (submit_try env msg s))\<rparr>
             \<and> supabaseClient s = supabaseClient st \<and> trace s = trace st
             \<and> chat_messages s
                 = map_option (\<lambda>ns. ns @ [MessageNode ''message user'' txt_you msg])
                     (chat_messages st)"
proof -
  define s1 where "s1 = displayMessage env (Some (JStr msg)) True st"
  define s2 where "s2 = s1\<lparr>message_input_value := [], message_input_disabled := True\<rparr>"
  define s3 where "s3 = s2\<lparr>submit_button :=
                         map_option (\<lambda>b. \<lparr>button_disabled = True, button_content = html_sending\<rparr>)
                           (submit_button s2)\<rparr>"
  have a: "submit_listener env st
               = (submit_try env msg s3)
                   \<lparr>message_input_disabled := False,
                    submit_button :=
                      map_option (\<lambda>b. \<lparr>button_disabled = False, button_content = txt_send\<rparr>)
                        (submit_button (submit_try env msg s3))\<rparr>"
    using assms by (simp add: submit_listener_def Let_def s1_def s2_def s3_def)
  have b: "supabaseClient s3 = supabaseClient st \<and> trace s3 = trace st"
    by (simp add: s3_def s2_def s1_def displayMessage_def split: option.splits)
  have c: "chat_messages s3
             = map_option (\<lambda>ns. ns @ [MessageNode ''message user'' txt_you msg]) (chat_messages st)"
    by (simp add: s3_def s2_def s1_def displayMessage_def text_content_def split: option.splits)
  show ?thesis using a b c by blast
qed

lemma displayMessage_trace: "trace (displayMessage env m u s) = trace s"
  by (simp add: displayMessage_def split: option.splits)

lemma displayError_trace: "trace (displayError m s) = trace s"
  by (simp add: displayError_def split: option.splits)

lemma displaySources_trace: "trace (snd (displaySources env v s)) = trace s"
  by (auto simp: displaySources_def split: option.splits json.splits sum.splits)

lemma submit_try_trace: "trace (submit_try env msg s) = trace (snd (sendMessage env msg s))"
proof (cases "sendMessage env msg s")
  case (Pair res s1)
  show ?thesis
  proof (cases res)
    case (Inl e)
    then show ?thesis using Pair by (simp add: submit_try_def displayError_trace)
  next
    case (Inr response)
    show ?thesis
    proof (cases "get_prop env (Some response) ''answer''")
      case (Inl e)
      then show ?thesis using Pair Inr by (simp add: submit_try_def displayError_trace)
    next
      case a: (Inr answer)
      let ?s2 = "displayMessage env answer False s1"
      have t2: "trace ?s2 = trace s1"
        by (rule displayMessage_trace)
      have "trace (snd (displaySources env (member response ''sources'') ?s2)) = trace s1"
        using t2 by (simp add: displaySources_trace)
      then show ?thesis
        using Pair Inr a t2
        by (cases "displaySources env (member response ''sources'') ?s2")
           (auto simp: submit_try_def Let_def displayError_trace split: sum.splits)
    qed
  qed
qed

text \<open>
  Claim C5. The chat form is submitted with the input holding \<^verbatim>\<open>test question\<close>, on a
  page that has the message list, with a token available, and the backend answers the
  chat request with a 2xx response whose body has the string \<^verbatim>\<open>answer\<close>. Then exactly
  one request goes out, a \<^verbatim>\<open>POST\<close> to the \<^verbatim>\<open>/chat\<close> path whose body is the text
  \<^verbatim>\<open>{"message":"test question"}\<close>, and the answer is shown after the user's message.
  When the body also has a non-empty \<^verbatim>\<open>sources\<close> array of objects with \<^verbatim>\<open>file_name\<close> and
  \<^verbatim>\<open>similarity\<close>, one more node lists, for each source, the file name, the label, the
  similarity scaled by 100 and printed by \<^verbatim>\<open>toFixed(1)\<close>, and a percent sign.
\<close>

theorem chat_submit_scenario:
  \<open>message_input_value st = ''test question'' \<and> chat_messages st = Some ns \<and>
   fst (getAuthToken env st) = Inr (Some t) \<and> t \<noteq> [] \<and>
   fetch_reply env (now (snd (getAuthToken env st)))
     (chat_request env (auth_headers t) ''test question'') = Response r \<and>
   ok r \<and> json_body r = Inr (JObj kvs) \<and> map_of kvs ''answer'' = Some (JStr a)
   \<longrightarrow>
   map (\<lambda>q. (http_method q, url q, body q)) (requests (trace (submit_listener env st)))
     = map (\<lambda>q. (http_method q, url q, body q)) (requests (trace st))
       @ [(''POST'', API_BASE_URL env @ ''/chat'', TextBody ''{"message":"test question"}'')] \<and>
   (map_of kvs ''sources'' = None \<longrightarrow>
      chat_messages (submit_listener env st)
        = Some (ns @ [MessageNode ''message user'' txt_you ''test question'',
                      MessageNode ''message assistant'' txt_assistant a])) \<and>
   (map_of kvs ''sources'' = Some (JArr (map (\<lambda>(f, x). source_object f x) srcs)) \<and> srcs \<noteq> []
    \<longrightarrow>
      chat_messages (submit_listener env st)
        = Some (ns @ [MessageNode ''message user'' txt_you ''test question'',
                      MessageNode ''message assistant'' txt_assistant a,
                      SourcesNode txt_references
                        (map (\<lambda>(f, x). f @ txt_similarity_open
                                @ toFixed env (times_100 env x) 1 @ ''%)'') srcs)]))\<close>
proof (intro impI)
  assume h: \<open>message_input_value st = ''test question'' \<and> chat_messages st = Some ns \<and>
   fst (getAuthToken env st) = Inr (Some t) \<and> t \<noteq> [] \<and>
   fetch_reply env (now (snd (getAuthToken env st)))
     (chat_request env (auth_headers t) ''test question'') = Response r \<and>
   ok r \<and> json_body r = Inr (JObj kvs) \<and> map_of kvs ''answer'' = Some (JStr a)\<close>
  let ?msg = "''test question''"
  let ?user = "MessageNode ''message user'' txt_you ?msg"
  let ?asst = "MessageNode ''message assistant'' txt_assistant a"
  have tr: "trim (message_input_value st) = ?msg"
    using h by (simp add: trim_test_question)
  obtain s where sl: "submit_listener env st
               = (submit_try env ?msg s)
                   \<lparr>message_input_disabled := False,
                    submit_button :=
                      map_option (\<lambda>b. \<lparr>button_disabled = False, button_content = txt_send\<rparr>)
                        (submit_button (submit_try env ?msg s))\<rparr>"
    and sc: "supabaseClient s = supabaseClient st" and st: "trace s = trace st"
    and cm: "chat_messages s = map_option (\<lambda>ns. ns @ [?user]) (chat_messages st)"
    using submit_listener_steps [OF tr, of env] by auto
  have tk: "fst (getAuthToken env s) = Inr (Some t)"
    using h getAuthToken_same(1) [OF sc st, of env] by simp
  have tt: "trace (snd (getAuthToken env s)) = trace (snd (getAuthToken env st))"
    using getAuthToken_same(2) [OF sc st, of env] by simp
  have rp: "fetch_reply env (now (snd (getAuthToken env s)))
              (chat_request env (auth_headers t) ?msg) = Response r"
    using h tt by (simp add: now_def)
  have cm': "chat_messages s = Some (ns @ [?user])"
    using cm h by simp
  have ne: "t \<noteq> []" and okr: "ok r" and bd: "json_body r = Inr (JObj kvs)"
    and ans: "map_of kvs ''answer'' = Some (JStr a)"
    using h by simp_all
  have q: "requests (trace (submit_listener env st))
             = requests (trace st) @ [chat_request env (auth_headers t) ?msg]"
    using tt
    by (simp add: sl submit_try_trace sendMessage_token [OF tk ne] requests_emit
          getAuthToken_requests)
  have c1: \<open>map (\<lambda>q. (http_method q, url q, body q)) (requests (trace (submit_listener env st)))
     = map (\<lambda>q. (http_method q, url q, body q)) (requests (trace st))
       @ [(''POST'', API_BASE_URL env @ ''/chat'', TextBody ''{"message":"test question"}'')]\<close>
    by (simp add: q chat_request_def stringify_test_question)
  have c2: "chat_messages (submit_listener env st) = Some (ns @ [?user, ?asst])"
    if "map_of kvs ''sources'' = None"
    using submit_try_ok(1) [OF tk ne rp okr bd ans cm' that] cm'
    by (simp add: sl displayMessage_def text_content_def emit_def getAuthToken_chat)
  have c3: "chat_messages (submit_listener env st)
     = Some (ns @ [?user, ?asst,
                   SourcesNode txt_references
                     (map (\<lambda>(f, x). f @ txt_similarity_open
                             @ toFixed env (times_100 env x) 1 @ ''%)'') srcs)])"
    if "map_of kvs ''sources'' = Some (JArr (map (\<lambda>(f, x). source_object f x) srcs)) \<and> srcs \<noteq> []"
    using submit_try_ok(2) [OF tk ne rp okr bd ans cm', of srcs] that
    by (simp add: sl)
  show \<open>map (\<lambda>q. (http_method q, url q, body q)) (requests (trace (submit_listener env st)))
     = map (\<lambda>q. (http_method q, url q, body q)) (requests (trace st))
       @ [(''POST'', API_BASE_URL env @ ''/chat'', TextBody ''{"message":"test question"}'')] \<and>
   (map_of kvs ''sources'' = None \<longrightarrow>
      chat_messages (submit_listener env st) = Some (ns @ [?user, ?asst])) \<and>
   (map_of kvs ''sources'' = Some (JArr (map (\<lambda>(f, x). source_object f x) srcs)) \<and> srcs \<noteq> []
    \<longrightarrow>
      chat_messages (submit_listener env st)
        = Some (ns @ [?user, ?asst,
                      SourcesNode txt_references
                        (map (\<lambda>(f, x). f @ txt_similarity_open
                                @ toFixed env (times_100 env x) 1 @ ''%)'') srcs)]))\<close>
    using c1 c2 c3 by blast
qed


lemma example_chat_fetch:
  "fetch_reply example_env n (chat_request example_env hdrs msg) = Response example_chat_reply"
  by (simp add: example_env_def chat_request_def API_BASE_URL_def js_or_def)

lemma example_percent: "toFixed example_env (times_100 example_env (823 / 1000)) 1 = ''82.3''"
proof -
  have "example_toFixed (823 / 1000 * 100) 1 = ''82.3''"
    by code_simp
  then show ?thesis by (simp add: example_env_def)
qed

lemma answer_only_token: "fst (getAuthToken answer_only_env st) = Inr (Some ''tok'')"
  by (simp add: getAuthToken_def initSupabase_def answer_only_env_def example_env_def Let_def)

theorem chat_submit_scenario_witness:
  \<open>message_input_value example_state = ''test question'' \<and>
   chat_messages example_state = Some [] \<and>
   fst (getAuthToken example_env example_state) = Inr (Some ''tok'') \<and>
   ok example_chat_reply \<and>
   map (\<lambda>q. (http_method q, url q, body q))
       (requests (trace (submit_listener example_env example_state)))
     = [(''POST'', ''http://localhost:7071/api/chat'', TextBody ''{"message":"test question"}'')] \<and>
   chat_messages (submit_listener example_env example_state)
     = Some [MessageNode ''message user'' txt_you ''test question'',
             MessageNode ''message assistant'' txt_assistant ''It is in the manual.'',
             SourcesNode txt_references [''manual.pdf'' @ txt_similarity_open @ ''82.3%)'']] \<and>
   fst (getAuthToken answer_only_env example_state) = Inr (Some ''tok'') \<and>
   chat_messages (submit_listener answer_only_env example_state)
     = Some [MessageNode ''message user'' txt_you ''test question'',
             MessageNode ''message assistant'' txt_assistant ''Yes.'']\<close>
proof -
  let ?kvs = "[(''answer'', JStr ''It is in the manual.''),
               (''sources'', JArr [JObj [(''file_name'', JStr ''manual.pdf''),
                                         (''similarity'', JNum (823 / 1000 :: rat))]])]"
  let ?kvs2 = "[(''answer'', JStr ''Yes.'')] :: (string \<times> rat json) list"
  let ?r2 = "\<lparr>status = 200, json_body = Inr (JObj ?kvs2)\<rparr>"
  have v: "message_input_value example_state = ''test question''"
    and c: "chat_messages example_state = Some []"
    by (simp_all add: example_state_def)
  have tk: "fst (getAuthToken example_env example_state) = Inr (Some ''tok'')"
    by (rule example_token)
  have tk2: "fst (getAuthToken answer_only_env example_state) = Inr (Some ''tok'')"
    by (rule answer_only_token)
  have okr: "ok example_chat_reply"
    by (simp add: ok_def example_chat_reply_def)
  have bd: "json_body example_chat_reply = Inr (JObj ?kvs)"
    by (simp add: example_chat_reply_def)
  have src: "map_of ?kvs ''sources''
               = Some (JArr (map (\<lambda>(f, x). source_object f x) [(''manual.pdf'', 823 / 1000)]))"
    by (simp add: source_object_def)
  have ans: "map_of ?kvs ''answer'' = Some (JStr ''It is in the manual.'')"
    by simp
  note th = chat_submit_scenario [where st = example_state and ns = "[]" and env = example_env
      and t = "''tok''" and r = example_chat_reply and kvs = ?kvs
      and a = "''It is in the manual.''" and srcs = "[(''manual.pdf'', 823 / 1000)]"]
  have pre: "message_input_value example_state = ''test question'' \<and>
     chat_messages example_state = Some [] \<and>
     fst (getAuthToken example_env example_state) = Inr (Some ''tok'') \<and> ''tok'' \<noteq> [] \<and>
     fetch_reply example_env (now (snd (getAuthToken example_env example_state)))
       (chat_request example_env (auth_headers ''tok'') ''test question'')
       = Response example_chat_reply \<and>
     ok example_chat_reply \<and> json_body example_chat_reply = Inr (JObj ?kvs) \<and>
     map_of ?kvs ''answer'' = Some (JStr ''It is in the manual.'')"
    using v c tk okr bd ans by (simp add: example_chat_fetch)
  from th pre src example_requests example_base_url example_percent
  have one: \<open>map (\<lambda>q. (http_method q, url q, body q))
       (requests (trace (submit_listener example_env example_state)))
     = [(''POST'', ''http://localhost:7071/api/chat'', TextBody ''{"message":"test question"}'')] \<and>
   chat_messages (submit_listener example_env example_state)
     = Some [MessageNode ''message user'' txt_you ''test question'',
             MessageNode ''message assistant'' txt_assistant ''It is in the manual.'',
             SourcesNode txt_references [''manual.pdf'' @ txt_similarity_open @ ''82.3%)'']]\<close>
    by simp
  note th2 = chat_submit_scenario [where st = example_state and ns = "[]" and env = answer_only_env
      and t = "''tok''" and r = ?r2 and kvs = ?kvs2 and a = "''Yes.''"]
  have pre2: "message_input_value example_state = ''test question'' \<and>
     chat_messages example_state = Some [] \<and>
     fst (getAuthToken answer_only_env example_state) = Inr (Some ''tok'') \<and> ''tok'' \<noteq> [] \<and>
     fetch_reply answer_only_env (now (snd (getAuthToken answer_only_env example_state)))
       (chat_request answer_only_env (auth_headers ''tok'') ''test question'') = Response ?r2 \<and>
     ok ?r2 \<and> json_body ?r2 = Inr (JObj ?kvs2) \<and> map_of ?kvs2 ''answer'' = Some (JStr ''Yes.'')"
    using v c tk2 by (simp add: answer_only_env_def ok_def)
  from th2 pre2
  have two: "chat_messages (submit_listener answer_only_env example_state)
     = Some [MessageNode ''message user'' txt_you ''test question'',
             MessageNode ''message assistant'' txt_assistant ''Yes.'']"
    by simp
  show ?thesis using v c tk okr one tk2 two by simp
qed

end
